theory Spec2Isabelle
  imports Main
begin

section \<open>rbxauth: the data model\<close>

text \<open>
  The development follows the current client (the file with \<^verbatim>\<open>requestAPI\<close>, together with
  \<^verbatim>\<open>step.go\<close> and the API models), and, further down, the two older snapshots of
  \<^verbatim>\<open>LoginCred\<close> that the repository also holds.

  A Go \<^verbatim>\<open>string\<close> is a byte sequence, here a \<^typ>\<open>string\<close>. A Go \<^verbatim>\<open>int\<close> or \<^verbatim>\<open>int64\<close>
  that is only compared or passed on is an \<^typ>\<open>int\<close>; the one place that depends on the
  64-bit range (\<^verbatim>\<open>strconv.ParseInt\<close>) checks the range explicitly.
\<close>

subsection \<open>API models\<close>

text \<open>\<^verbatim>\<open>ErrorResponse\<close>: one entry of the \<^verbatim>\<open>errors\<close> array of a response.\<close>

record ErrorResponse =
  Code :: int
  Message :: string
  Field :: string

text \<open>\<^verbatim>\<open>Cred\<close>: the credentials that identify an account.\<close>

record Cred =
  Type :: string
  Ident :: string

text \<open>\<^verbatim>\<open>loginRequest\<close>; the captcha fields are never set by the client.\<close>

record loginRequest =
  CredType :: string
  CredValue :: string
  Password :: string

text \<open>
  \<^verbatim>\<open>twoStepVerificationTicketRequest\<close>, and \<^verbatim>\<open>twoStepVerificationVerifyRequest\<close>, which
  embeds it. Its field \<^verbatim>\<open>Code\<close> is \<open>VerifyCode\<close> here, since \<open>Code\<close> is the field of
  \<^verbatim>\<open>ErrorResponse\<close>; for the same reason the fields of the response structs below carry a
  prefix.
\<close>

record twoStepVerificationTicketRequest =
  Username :: string
  Ticket :: string
  ActionType :: string

record twoStepVerificationVerifyRequest = twoStepVerificationTicketRequest +
  VerifyCode :: string
  RememberDevice :: bool

text \<open>\<^verbatim>\<open>userResponseV2\<close> (its \<^verbatim>\<open>ID\<close> is never read) and \<^verbatim>\<open>twoStepVerificationSentResponse\<close>.\<close>

record userResponseV2 =
  Name :: string

record twoStepVerificationSentResponse =
  SentMediaType :: string
  SentTicket :: string

text \<open>
  The four values that \<^verbatim>\<open>requestAPI\<close> decodes a response into: \<^verbatim>\<open>errorsResponse\<close>,
  \<^verbatim>\<open>loginResponse\<close>, the anonymous struct of \<^verbatim>\<open>getUsername\<close> and the anonymous struct
  of \<^verbatim>\<open>Resend\<close>. The last three embed \<^verbatim>\<open>errorsResponse\<close>.
\<close>

record errorsResponse =
  Errors :: "ErrorResponse list"

record loginResponse = errorsResponse +
  User :: "userResponseV2 option"
  TwoStepVerificationData :: "twoStepVerificationSentResponse option"

record usernameResponse = errorsResponse +
  RespUsername :: string

record resendResponse = errorsResponse +
  RespMediaType :: string
  RespTicket :: string

subsection \<open>Errors\<close>

text \<open>
  Every error value the client can return. \<^verbatim>\<open>fmt.Errorf("p: %w", err)\<close> is \<open>Errorf p err\<close>;
  \<^verbatim>\<open>statusError{code, resp}\<close> is \<open>statusError code resp\<close> with \<open>None\<close> for a nil \<^verbatim>\<open>resp\<close>.
  \<open>NilDereference\<close> stands for the run-time panic of reading a field through a nil pointer.
\<close>

datatype numError = ErrSyntax | ErrRange

datatype err =
    TransportError string
  | URLError string
  | DecodeError
  | NumError numError
  | errorsResponseError "ErrorResponse list"
  | statusError int "err option"
  | Errorf string err
  | NilDereference

text \<open>\<^verbatim>\<open>ifStatus\<close>: wraps \<open>e\<close> in a \<open>statusError\<close> if the code is not 2XX.\<close>

definition ifStatus :: "int \<Rightarrow> err option \<Rightarrow> err option" where
  "ifStatus code e = (if code < 200 \<or> code \<ge> 300 then Some (statusError code e) else e)"

text \<open>
  What \<^verbatim>\<open>errors.As\<close> finds when asked for \<^verbatim>\<open>interface{ StatusCode() int }\<close>: it walks the
  \<^verbatim>\<open>Unwrap\<close> chain and stops at the first \<open>statusError\<close>.
\<close>

fun StatusCode_of :: "err \<Rightarrow> int option" where
  "StatusCode_of (statusError code _) = Some code"
| "StatusCode_of (Errorf _ e) = StatusCode_of e"
| "StatusCode_of _ = None"

subsection \<open>HTTP messages\<close>

text \<open>
  A response body as \<^verbatim>\<open>json.Decoder.Decode\<close> sees it. For each key that one of the
  four targets reads, the key is absent, \<^verbatim>\<open>null\<close>, or has a value. Decoding into a Go
  value leaves a field untouched when its key is absent; \<^verbatim>\<open>null\<close> resets a pointer or a
  slice and leaves a string or an integer untouched; an object is decoded into the struct
  a pointer already points to, or into a new one; the elements of an array are decoded
  into the elements the slice already has, and into zero values beyond its length. A body
  that \<^verbatim>\<open>Decode\<close> rejects is \<open>Malformed\<close>. This matters because \<^verbatim>\<open>requestAPI\<close> decodes the
  answer to a retry into the value that already holds the first answer.
\<close>

datatype 'a jfield = Absent | Null | Val 'a

record jsonError =
  j_code :: "int jfield"
  j_message :: "string jfield"
  j_field :: "string jfield"

record jsonUser =
  j_name :: "string jfield"

record jsonTwoStep =
  j_mediaType :: "string jfield"
  j_ticket :: "string jfield"

record jsonObject =
  j_errors :: "jsonError list jfield"
  j_user :: "jsonUser jfield"
  j_twoStepVerificationData :: "jsonTwoStep jfield"
  j_Username :: "string jfield"
  j_top_mediaType :: "string jfield"
  j_top_ticket :: "string jfield"

datatype body = Malformed | Json jsonObject

record cookie =
  CookieName :: string
  CookieValue :: string

text \<open>
  An \<^verbatim>\<open>http.Response\<close>: its status code, its header (a list of key/value pairs), the
  cookies that \<^verbatim>\<open>resp.Cookies()\<close> reads from it, and its body.
\<close>

record response =
  StatusCode :: int
  RespHeader :: "(string \<times> string) list"
  Cookies :: "cookie list"
  Body :: body

text \<open>
  The body of a request: the value that was marshalled, or none. \<open>EmptyObject\<close> is what
  \<^verbatim>\<open>json.Marshal\<close> writes for a struct none of whose fields is exported.
\<close>

datatype requestBody =
    NoBody
  | EmptyObject
  | LoginBody loginRequest
  | VerifyBody twoStepVerificationVerifyRequest
  | TicketBody twoStepVerificationTicketRequest

text \<open>
  A URL is a literal string or \<^verbatim>\<open>fmt.Sprintf(endpoint, userID)\<close>, kept symbolic.
\<close>

datatype urlstring = Lit string | Sprintf string int

record request =
  Method :: string
  URL :: urlstring
  Header :: "(string \<times> string) list"
  ReqCookies :: "cookie list"
  ReqBody :: requestBody

text \<open>\<^verbatim>\<open>Header.Get\<close> (the empty string when the key is not set) and \<^verbatim>\<open>Header.Set\<close>.\<close>

definition header_Get :: "string \<Rightarrow> (string \<times> string) list \<Rightarrow> string" where
  "header_Get k h = (case map_of h k of None \<Rightarrow> [] | Some v \<Rightarrow> v)"

definition header_Set :: "string \<Rightarrow> string \<Rightarrow> (string \<times> string) list \<Rightarrow> (string \<times> string) list" where
  "header_Set k v h = (k, v) # filter (\<lambda>p. fst p \<noteq> k) h"

definition tokenHeader :: string where
  "tokenHeader = ''X-CSRF-TOKEN''"

definition DefaultLoginEndpoint :: string where
  "DefaultLoginEndpoint = ''https://auth.roblox.com/v2/login''"

definition DefaultLogoutEndpoint :: string where
  "DefaultLogoutEndpoint = ''https://auth.roblox.com/v2/logout''"

definition DefaultVerifyEndpoint :: string where
  "DefaultVerifyEndpoint = ''https://auth.roblox.com/v2/twostepverification/verify''"

definition DefaultResendEndpoint :: string where
  "DefaultResendEndpoint = ''https://auth.roblox.com/v2/twostepverification/resend''"

definition DefaultUserIDEndpoint :: string where
  "DefaultUserIDEndpoint = ''https://api.roblox.com/users/%d''"

subsection \<open>The environment\<close>

text \<open>
  What the client cannot decide by itself is a parameter:
  \<^item> \<open>Do\<close> is \<^verbatim>\<open>client.Do\<close>. It receives the requests sent so far, the newest first, and
    answers the newest one; so an answer may depend on the whole exchange.
  \<^item> \<open>bad_url\<close> says for which URLs \<^verbatim>\<open>http.NewRequest\<close> returns an error.
  \<^item> \<open>unicode_ToLower\<close> is \<^verbatim>\<open>strings.ToLower\<close> on strings that are not pure ASCII.
\<close>

datatype doResult = DoError string | Resp response

record env =
  Do :: "request list \<Rightarrow> doResult"
  bad_url :: "urlstring \<Rightarrow> bool"
  unicode_ToLower :: "string \<Rightarrow> string"

definition NewRequest :: "env \<Rightarrow> string \<Rightarrow> urlstring \<Rightarrow> requestBody \<Rightarrow> err + request" where
  "NewRequest E m u b =
     (if bad_url E u then Inl (URLError (case u of Lit s \<Rightarrow> s | Sprintf s _ \<Rightarrow> s))
      else Inr \<lparr>Method = m, URL = u, Header = [], ReqCookies = [], ReqBody = b\<rparr>)"

subsection \<open>Config\<close>

text \<open>\<^verbatim>\<open>Config\<close>; the \<^verbatim>\<open>Client\<close> field is the environment's \<open>Do\<close>.\<close>

record Config =
  Token :: string
  LoginEndpoint :: string
  LogoutEndpoint :: string
  VerifyEndpoint :: string
  ResendEndpoint :: string
  UserIDEndpoint :: string

subsection \<open>Decoding a response body\<close>

definition decode_string :: "string jfield \<Rightarrow> string \<Rightarrow> string" where
  "decode_string f old = (case f of Val s \<Rightarrow> s | _ \<Rightarrow> old)"

definition decode_int :: "int jfield \<Rightarrow> int \<Rightarrow> int" where
  "decode_int f old = (case f of Val n \<Rightarrow> n | _ \<Rightarrow> old)"

definition decode_ErrorResponse :: "jsonError \<Rightarrow> ErrorResponse \<Rightarrow> ErrorResponse" where
  "decode_ErrorResponse e old =
     old\<lparr>Code := decode_int (j_code e) (Code old),
         Message := decode_string (j_message e) (Message old),
         Field := decode_string (j_field e) (Field old)\<rparr>"

text \<open>
  The array of errors: element \<open>i\<close> of the array is decoded into element \<open>i\<close> of the slice
  as it is, without being zeroed first, and the slice is cut to the length of the array.
  An element beyond the old length starts from the zero value; what the spare capacity of
  the slice may still hold from a longer, earlier array is not modelled.
\<close>

fun decode_elements :: "jsonError list \<Rightarrow> ErrorResponse list \<Rightarrow> ErrorResponse list" where
  "decode_elements [] old = []"
| "decode_elements (e # es) [] =
     decode_ErrorResponse e \<lparr>Code = 0, Message = [], Field = []\<rparr> # decode_elements es []"
| "decode_elements (e # es) (x # xs) = decode_ErrorResponse e x # decode_elements es xs"

definition decode_Errors :: "jsonError list jfield \<Rightarrow> ErrorResponse list \<Rightarrow> ErrorResponse list" where
  "decode_Errors f old =
     (case f of Absent \<Rightarrow> old | Null \<Rightarrow> [] | Val es \<Rightarrow> decode_elements es old)"

definition decode_User :: "jsonUser jfield \<Rightarrow> userResponseV2 option \<Rightarrow> userResponseV2 option" where
  "decode_User f old =
     (case f of
        Absent \<Rightarrow> old
      | Null \<Rightarrow> None
      | Val u \<Rightarrow>
          (let v = (case old of None \<Rightarrow> \<lparr>Name = []\<rparr> | Some v \<Rightarrow> v)
           in Some (v\<lparr>Name := decode_string (j_name u) (Name v)\<rparr>)))"

definition decode_TwoStep ::
  "jsonTwoStep jfield \<Rightarrow> twoStepVerificationSentResponse option \<Rightarrow> twoStepVerificationSentResponse option" where
  "decode_TwoStep f old =
     (case f of
        Absent \<Rightarrow> old
      | Null \<Rightarrow> None
      | Val d \<Rightarrow>
          (let v = (case old of None \<Rightarrow> \<lparr>SentMediaType = [], SentTicket = []\<rparr> | Some v \<Rightarrow> v)
           in Some (v\<lparr>SentMediaType := decode_string (j_mediaType d) (SentMediaType v),
                     SentTicket := decode_string (j_ticket d) (SentTicket v)\<rparr>)))"

definition decode_errorsResponse :: "jsonObject \<Rightarrow> errorsResponse \<Rightarrow> errorsResponse" where
  "decode_errorsResponse j a = a\<lparr>Errors := decode_Errors (j_errors j) (Errors a)\<rparr>"

definition decode_loginResponse :: "jsonObject \<Rightarrow> loginResponse \<Rightarrow> loginResponse" where
  "decode_loginResponse j a =
     a\<lparr>Errors := decode_Errors (j_errors j) (Errors a),
       User := decode_User (j_user j) (User a),
       TwoStepVerificationData := decode_TwoStep (j_twoStepVerificationData j) (TwoStepVerificationData a)\<rparr>"

definition decode_usernameResponse :: "jsonObject \<Rightarrow> usernameResponse \<Rightarrow> usernameResponse" where
  "decode_usernameResponse j a =
     a\<lparr>Errors := decode_Errors (j_errors j) (Errors a),
       RespUsername := decode_string (j_Username j) (RespUsername a)\<rparr>"

definition decode_resendResponse :: "jsonObject \<Rightarrow> resendResponse \<Rightarrow> resendResponse" where
  "decode_resendResponse j a =
     a\<lparr>Errors := decode_Errors (j_errors j) (Errors a),
       RespMediaType := decode_string (j_top_mediaType j) (RespMediaType a),
       RespTicket := decode_string (j_top_ticket j) (RespTicket a)\<rparr>"

section \<open>The client\<close>

subsection \<open>requestAPI\<close>

text \<open>
  \<^verbatim>\<open>func (c *Config) requestAPI(req, apiResp) (resp, err)\<close>. The receiver and \<^verbatim>\<open>apiResp\<close>
  are pointers, so the function returns them updated, with the log of requests sent.
  The result is \<open>None\<close> when the recursion never returns.
  \<open>dec\<close> is \<^verbatim>\<open>Decode\<close> at the type of \<^verbatim>\<open>apiResp\<close>, and \<open>errs\<close> its method \<^verbatim>\<open>errResp\<close>,
  which all four targets have. When \<^verbatim>\<open>Decode\<close> fails the caller returns at once, so what
  a failed \<^verbatim>\<open>Decode\<close> leaves in \<^verbatim>\<open>apiResp\<close> is not modelled.
\<close>

partial_function (option) requestAPI ::
  "env \<Rightarrow> (jsonObject \<Rightarrow> 'a \<Rightarrow> 'a) \<Rightarrow> ('a \<Rightarrow> ErrorResponse list) \<Rightarrow>
   Config \<Rightarrow> request \<Rightarrow> 'a \<Rightarrow> request list \<Rightarrow>
   ((response option \<times> err option) \<times> Config \<times> 'a \<times> request list) option"
where
  "requestAPI E dec errs c req apiResp log =
     (let req1 = (if Token c \<noteq> [] then req\<lparr>Header := header_Set tokenHeader (Token c) (Header req)\<rparr>
                  else req);
          log1 = req1 # log
      in case Do E log1 of
           DoError e \<Rightarrow> Some ((None, Some (TransportError e)), c, apiResp, log1)
         | Resp resp \<Rightarrow>
            (let token = header_Get tokenHeader (RespHeader resp);
                 c1 = (if token \<noteq> [] then c\<lparr>Token := token\<rparr> else c)
             in case Body resp of
                  Malformed \<Rightarrow>
                    Some ((Some resp, ifStatus (StatusCode resp) (Some DecodeError)), c1, apiResp, log1)
                | Json j \<Rightarrow>
                   (let a1 = dec j apiResp
                    in case errs a1 of
                         [] \<Rightarrow> Some ((Some resp, ifStatus (StatusCode resp) None), c1, a1, log1)
                       | e # _ \<Rightarrow>
                           if StatusCode resp = 403 \<and> Code e = 0
                              \<and> header_Get tokenHeader (Header req1) = []
                           then requestAPI E dec errs c1 req1 a1 log1
                           else Some ((None, ifStatus (StatusCode resp)
                                               (Some (errorsResponseError (errs a1)))),
                                      c1, a1, log1))))"


declare requestAPI.simps [code]

subsection \<open>Library functions used by LoginCred\<close>

text \<open>
  \<^verbatim>\<open>strings.ToLower\<close>: bytewise on a pure ASCII string, the Unicode mapping otherwise.
\<close>

definition isASCII :: "char \<Rightarrow> bool" where
  "isASCII ch = ((of_char ch :: int) < 128)"

definition lowerASCII :: "char \<Rightarrow> char" where
  "lowerASCII ch =
     (if (65::int) \<le> of_char ch \<and> (of_char ch :: int) \<le> 90 then char_of (of_char ch + (32::int)) else ch)"

definition ToLower :: "env \<Rightarrow> string \<Rightarrow> string" where
  "ToLower E s = (if list_all isASCII s then map lowerASCII s else unicode_ToLower E s)"

text \<open>
  \<^verbatim>\<open>strconv.ParseUint(s, 10, 64)\<close> reads the string from the left: a byte that is not a
  decimal digit is a syntax error, and a digit that takes the value beyond 64 bits is a
  range error, whichever comes first. \<open>1844674407370955162\<close> is its \<^verbatim>\<open>cutoff\<close>,
  \<^verbatim>\<open>maxUint64/10 + 1\<close>, and \<open>18446744073709551615\<close> its \<^verbatim>\<open>maxVal\<close>.
\<close>

definition isDigit :: "char \<Rightarrow> bool" where
  "isDigit ch = ((48::int) \<le> of_char ch \<and> (of_char ch :: int) \<le> 57)"

fun ParseUint_digits :: "int \<Rightarrow> string \<Rightarrow> numError + int" where
  "ParseUint_digits n [] = Inr n"
| "ParseUint_digits n (ch # cs) =
     (if \<not> isDigit ch then Inl ErrSyntax
      else if n \<ge> 1844674407370955162 then Inl ErrRange
      else (let n1 = n * 10 + (of_char ch - 48)
            in if n1 > 18446744073709551615 then Inl ErrRange
               else ParseUint_digits n1 cs))"

definition ParseUint :: "string \<Rightarrow> numError + int" where
  "ParseUint s = (if s = [] then Inl ErrSyntax else ParseUint_digits 0 s)"

text \<open>
  \<^verbatim>\<open>strconv.ParseInt(s, 10, 64)\<close>: it picks off a leading sign, calls \<^verbatim>\<open>ParseUint\<close>, returns
  its syntax error, and goes on with \<^verbatim>\<open>maxVal\<close> after its range error; then it checks the
  value against \<^verbatim>\<open>1 << 63\<close>.
\<close>

definition ParseInt :: "string \<Rightarrow> err + int" where
  "ParseInt s =
     (case s of
        [] \<Rightarrow> Inl (NumError ErrSyntax)
      | ch # rest \<Rightarrow>
          (let neg = (ch = CHR ''-'');
               s1 = (if ch = CHR ''+'' \<or> ch = CHR ''-'' then rest else s)
           in case ParseUint s1 of
                Inl ErrSyntax \<Rightarrow> Inl (NumError ErrSyntax)
              | r \<Rightarrow>
                 (let un = (case r of Inr n \<Rightarrow> n | Inl _ \<Rightarrow> 18446744073709551615)
                  in if \<not> neg \<and> un \<ge> 2 ^ 63 then Inl (NumError ErrRange)
                     else if neg \<and> un > 2 ^ 63 then Inl (NumError ErrRange)
                     else Inr (if neg then - un else un))))"

subsection \<open>Step\<close>

record Step =
  cfg :: Config
  req :: twoStepVerificationVerifyRequest
  MediaType :: string

subsection \<open>getUsername\<close>

text \<open>
  \<^verbatim>\<open>func (c Config) getUsername(userID int64) (name string, err error)\<close>. The receiver is
  a value: \<^verbatim>\<open>requestAPI\<close> updates the method's own copy of the configuration, which is
  dropped on return.
\<close>

definition getUsername ::
  "env \<Rightarrow> Config \<Rightarrow> int \<Rightarrow> request list \<Rightarrow> ((err + string) \<times> request list) option" where
  "getUsername E c userID log =
     (let endpoint = (if UserIDEndpoint c = [] then DefaultUserIDEndpoint else UserIDEndpoint c)
      in case NewRequest E ''GET'' (Sprintf endpoint userID) NoBody of
           Inl e \<Rightarrow> Some (Inl (Errorf ''user from ID'' e), log)
         | Inr r \<Rightarrow>
            (case requestAPI E decode_usernameResponse Errors c r
                    \<lparr>Errors = [], RespUsername = []\<rparr> log of
               None \<Rightarrow> None
             | Some ((_, Some e), _, _, log') \<Rightarrow> Some (Inl (Errorf ''user from ID'' e), log')
             | Some ((_, None), _, apiResp, log') \<Rightarrow> Some (Inr (RespUsername apiResp), log')))"

subsection \<open>LoginCred, Login, LoginID\<close>

text \<open>
  The request that \<^verbatim>\<open>LoginCred\<close> builds once the credentials are settled, and what it
  does with it: the part of \<^verbatim>\<open>LoginCred\<close> after the \<^verbatim>\<open>UserID\<close> special case.
  \<^verbatim>\<open>requestAPI\<close> runs on the method's own copy of the configuration; that copy, with the
  token it has learned, goes into the \<^verbatim>\<open>Step\<close>.
\<close>

definition loginHTTPRequest :: "Config \<Rightarrow> Cred \<Rightarrow> string \<Rightarrow> request" where
  "loginHTTPRequest c cred password =
     \<lparr>Method = ''POST'',
      URL = Lit (if LoginEndpoint c = [] then DefaultLoginEndpoint else LoginEndpoint c),
      Header = header_Set ''Accept'' ''application/json''
                 (header_Set ''Content-Type'' ''application/json'' []),
      ReqCookies = [],
      ReqBody = LoginBody \<lparr>CredType = Type cred, CredValue = Ident cred, Password = password\<rparr>\<rparr>"

definition LoginCred_send ::
  "env \<Rightarrow> Config \<Rightarrow> Cred \<Rightarrow> string \<Rightarrow> request list \<Rightarrow>
   ((err + cookie list \<times> Step option) \<times> request list) option" where
  "LoginCred_send E c cred password log =
     (let body = LoginBody \<lparr>CredType = Type cred, CredValue = Ident cred, Password = password\<rparr>;
          endpoint = (if LoginEndpoint c = [] then DefaultLoginEndpoint else LoginEndpoint c)
      in case NewRequest E ''POST'' (Lit endpoint) body of
           Inl e \<Rightarrow> Some (Inl (Errorf ''login'' e), log)
         | Inr r0 \<Rightarrow>
            (let r1 = r0\<lparr>Header := header_Set ''Content-Type'' ''application/json'' (Header r0)\<rparr>;
                 r2 = r1\<lparr>Header := header_Set ''Accept'' ''application/json'' (Header r1)\<rparr>
             in case requestAPI E decode_loginResponse Errors c r2
                       \<lparr>Errors = [], User = None, TwoStepVerificationData = None\<rparr> log of
                  None \<Rightarrow> None
                | Some ((_, Some e), _, _, log') \<Rightarrow> Some (Inl (Errorf ''login'' e), log')
                | Some ((None, None), _, _, log') \<Rightarrow> Some (Inl NilDereference, log')
                | Some ((Some resp, None), c', apiResp, log') \<Rightarrow>
                   (case TwoStepVerificationData apiResp of
                      None \<Rightarrow> Some (Inr (Cookies resp, None), log')
                    | Some d \<Rightarrow>
                       (case User apiResp of
                          None \<Rightarrow> Some (Inl NilDereference, log')
                        | Some u \<Rightarrow>
                            Some (Inr (Cookies resp,
                                       Some \<lparr>cfg = c',
                                             req = \<lparr>Username = Name u,
                                                    Ticket = SentTicket d,
                                                    ActionType = ''Login'',
                                                    VerifyCode = [],
                                                    RememberDevice = False\<rparr>,
                                             MediaType = SentMediaType d\<rparr>),
                                  log')))))"

text \<open>
  \<^verbatim>\<open>func (c Config) LoginCred(cred Cred, password []byte) (cookies, step, err)\<close>. The
  receiver is a value, so nothing of the caller's configuration changes. \<^verbatim>\<open>c.getUsername\<close>
  has a value receiver as well, so \<open>c\<close> is the same before and after the lookup.
\<close>

definition LoginCred ::
  "env \<Rightarrow> Config \<Rightarrow> Cred \<Rightarrow> string \<Rightarrow> request list \<Rightarrow>
   ((err + cookie list \<times> Step option) \<times> request list) option" where
  "LoginCred E c cred password log =
     (if ToLower E (Type cred) = ''userid'' then
        (case ParseInt (Ident cred) of
           Inl e \<Rightarrow> Some (Inl (Errorf ''login'' (Errorf ''parse user ID'' e)), log)
         | Inr userID \<Rightarrow>
            (case getUsername E c userID log of
               None \<Rightarrow> None
             | Some (Inl e, log1) \<Rightarrow> Some (Inl (Errorf ''login'' e), log1)
             | Some (Inr name, log1) \<Rightarrow>
                 LoginCred_send E c \<lparr>Type = ''Username'', Ident = name\<rparr> password log1))
      else LoginCred_send E c cred password log)"

definition Login ::
  "env \<Rightarrow> Config \<Rightarrow> string \<Rightarrow> string \<Rightarrow> request list \<Rightarrow>
   ((err + cookie list \<times> Step option) \<times> request list) option" where
  "Login E c username password log =
     LoginCred E c \<lparr>Type = ''Username'', Ident = username\<rparr> password log"

definition LoginID ::
  "env \<Rightarrow> Config \<Rightarrow> int \<Rightarrow> string \<Rightarrow> request list \<Rightarrow>
   ((err + cookie list \<times> Step option) \<times> request list) option" where
  "LoginID E c userID password log =
     (case getUsername E c userID log of
        None \<Rightarrow> None
      | Some (Inl e, log1) \<Rightarrow> Some (Inl e, log1)
      | Some (Inr name, log1) \<Rightarrow>
          LoginCred E c \<lparr>Type = ''Username'', Ident = name\<rparr> password log1)"

subsection \<open>Logout\<close>

definition Logout ::
  "env \<Rightarrow> Config \<Rightarrow> cookie list \<Rightarrow> request list \<Rightarrow> (err option \<times> request list) option" where
  "Logout E c cookies log =
     (let endpoint = (if LogoutEndpoint c = [] then DefaultLogoutEndpoint else LogoutEndpoint c)
      in case NewRequest E ''POST'' (Lit endpoint) NoBody of
           Inl e \<Rightarrow> Some (Some (Errorf ''logout'' e), log)
         | Inr r0 \<Rightarrow>
            (let r1 = r0\<lparr>Header := header_Set ''Accept'' ''application/json'' (Header r0)\<rparr>;
                 r2 = r1\<lparr>ReqCookies := ReqCookies r1 @ cookies\<rparr>
             in case requestAPI E decode_errorsResponse Errors c r2 \<lparr>Errors = []\<rparr> log of
                  None \<Rightarrow> None
                | Some ((_, Some e), _, _, log') \<Rightarrow> Some (Some (Errorf ''logout'' e), log')
                | Some ((_, None), _, _, log') \<Rightarrow> Some (None, log')))"

subsection \<open>Step.Verify and Step.Resend\<close>

text \<open>
  \<^verbatim>\<open>func (s *Step) Verify(code string, remember bool) (cookies, err)\<close>. The receiver is a
  pointer, so the step is returned as the call leaves it: \<^verbatim>\<open>s.cfg.requestAPI\<close> works on
  the step's own configuration.
\<close>

definition Verify ::
  "env \<Rightarrow> Step \<Rightarrow> string \<Rightarrow> bool \<Rightarrow> request list \<Rightarrow>
   ((err + cookie list) \<times> Step \<times> request list) option" where
  "Verify E s code remember log =
     (let apiReq = (req s)\<lparr>VerifyCode := code, RememberDevice := remember\<rparr>;
          endpoint = (if VerifyEndpoint (cfg s) = [] then DefaultVerifyEndpoint
                      else VerifyEndpoint (cfg s))
      in case NewRequest E ''POST'' (Lit endpoint) (VerifyBody apiReq) of
           Inl e \<Rightarrow> Some (Inl (Errorf ''verify'' e), s, log)
         | Inr r0 \<Rightarrow>
            (let r1 = r0\<lparr>Header := header_Set ''Content-Type'' ''application/json'' (Header r0)\<rparr>;
                 r2 = r1\<lparr>Header := header_Set ''Accept'' ''application/json'' (Header r1)\<rparr>
             in case requestAPI E decode_errorsResponse Errors (cfg s) r2 \<lparr>Errors = []\<rparr> log of
                  None \<Rightarrow> None
                | Some ((_, Some e), c', _, log') \<Rightarrow>
                    Some (Inl (Errorf ''verify'' e), s\<lparr>cfg := c'\<rparr>, log')
                | Some ((None, None), c', _, log') \<Rightarrow>
                    Some (Inl NilDereference, s\<lparr>cfg := c'\<rparr>, log')
                | Some ((Some resp, None), c', _, log') \<Rightarrow>
                    Some (Inr (Cookies resp), s\<lparr>cfg := c'\<rparr>, log')))"

text \<open>
  \<^verbatim>\<open>func (s *Step) Resend() (err error)\<close>. The function literal at its head is called at
  once, not deferred, while \<^verbatim>\<open>err\<close> is still nil: it does nothing, and the errors of
  \<^verbatim>\<open>Resend\<close> are returned as they are. The request body is the embedded
  \<^verbatim>\<open>twoStepVerificationTicketRequest\<close> of \<^verbatim>\<open>s.req\<close>.
\<close>

definition Resend ::
  "env \<Rightarrow> Step \<Rightarrow> request list \<Rightarrow> (err option \<times> Step \<times> request list) option" where
  "Resend E s log =
     (let body = TicketBody \<lparr>Username = Username (req s), Ticket = Ticket (req s),
                             ActionType = ActionType (req s)\<rparr>;
          endpoint = (if ResendEndpoint (cfg s) = [] then DefaultResendEndpoint
                      else ResendEndpoint (cfg s))
      in case NewRequest E ''POST'' (Lit endpoint) body of
           Inl e \<Rightarrow> Some (Some e, s, log)
         | Inr r0 \<Rightarrow>
            (let r1 = r0\<lparr>Header := header_Set ''Accept'' ''application/json'' (Header r0)\<rparr>
             in case requestAPI E decode_resendResponse Errors (cfg s) r1
                       \<lparr>Errors = [], RespMediaType = [], RespTicket = []\<rparr> log of
                  None \<Rightarrow> None
                | Some ((_, Some e), c', _, log') \<Rightarrow> Some (Some e, s\<lparr>cfg := c'\<rparr>, log')
                | Some ((_, None), c', apiResp, log') \<Rightarrow>
                    Some (None,
                          s\<lparr>cfg := c',
                            MediaType := RespMediaType apiResp,
                            req := (req s)\<lparr>Ticket := RespTicket apiResp\<rparr>\<rparr>,
                          log')))"

section \<open>The older snapshots of LoginCred\<close>

text \<open>
  The repository also holds two earlier versions of the client, written before
  \<^verbatim>\<open>requestAPI\<close> existed. Their \<^verbatim>\<open>Config\<close> has the single field \<^verbatim>\<open>Host\<close>, every
  call uses a fresh \<^verbatim>\<open>http.Client\<close>, and there is no token.

  In both, the structs that are marshalled and decoded (\<^verbatim>\<open>loginRequest\<close>, \<^verbatim>\<open>loginResponse\<close>,
  \<^verbatim>\<open>errorResponse\<close>) have lower-case field names only. \<^verbatim>\<open>encoding/json\<close> ignores a field
  that is not exported: the request body is the empty object, and \<^verbatim>\<open>Decode\<close> sets no field.
  \<^verbatim>\<open>userResponse\<close> in \<^verbatim>\<open>getUsername\<close> has the exported field \<^verbatim>\<open>Username\<close>, which is decoded.
  The older \<^verbatim>\<open>loginResponse\<close> has the shape of the current one and is modelled by the
  same record; \<^verbatim>\<open>StatusError(code)\<close> is \<open>statusError code None\<close>.
\<close>

record legacyConfig =
  Host :: string

record legacyStep =
  legacy_cfg :: legacyConfig
  legacy_req :: twoStepVerificationVerifyRequest
  legacy_MediaType :: string

definition DefaultHost :: string where
  "DefaultHost = ''roblox.com''"

text \<open>\<^verbatim>\<open>buildURL(sub, host, path).String()\<close>, for a plain host and path.\<close>

definition buildURL :: "string \<Rightarrow> string \<Rightarrow> string \<Rightarrow> string" where
  "buildURL sub host path =
     ''https://'' @ sub @ ''.'' @ (if host = [] then DefaultHost else host) @ path"

definition decode_unexported :: "jsonObject \<Rightarrow> loginResponse \<Rightarrow> loginResponse" where
  "decode_unexported j a = a"

definition decode_userResponse :: "jsonObject \<Rightarrow> usernameResponse \<Rightarrow> usernameResponse" where
  "decode_userResponse j a = a\<lparr>RespUsername := decode_string (j_Username j) (RespUsername a)\<rparr>"

text \<open>
  The older \<^verbatim>\<open>func getUsername(host string, userID int64) (string, error)\<close>;
  \<^verbatim>\<open>strconv.FormatInt(userID, 10)\<close> at the end of the path is kept symbolic, as \<^verbatim>\<open>%d\<close>.
\<close>

definition getUsername_legacy ::
  "env \<Rightarrow> string \<Rightarrow> int \<Rightarrow> request list \<Rightarrow> (err + string) \<times> request list" where
  "getUsername_legacy E host userID log =
     (case NewRequest E ''GET'' (Sprintf (buildURL ''api'' host ''/users/%d'') userID) NoBody of
        Inl e \<Rightarrow> (Inl e, log)
      | Inr r \<Rightarrow>
         (case Do E (r # log) of
            DoError e \<Rightarrow> (Inl (TransportError e), r # log)
          | Resp resp \<Rightarrow>
             (case Body resp of
                Malformed \<Rightarrow> (Inl DecodeError, r # log)
              | Json j \<Rightarrow>
                 (let apiResp = decode_userResponse j \<lparr>Errors = [], RespUsername = []\<rparr>
                  in if length (Errors apiResp) > 0 then
                       (Inl (errorsResponseError (Errors apiResp)), r # log)
                     else if StatusCode resp < 200 \<and> StatusCode resp \<ge> 300 then
                       (Inl (statusError (StatusCode resp) None), r # log)
                     else (Inr (RespUsername apiResp), r # log)))))"

text \<open>
  The oldest \<^verbatim>\<open>func (cfg *Config) LoginCred(credType, value string, password []byte)\<close>.
\<close>

definition LoginCred_v1 ::
  "env \<Rightarrow> legacyConfig \<Rightarrow> string \<Rightarrow> string \<Rightarrow> string \<Rightarrow> request list \<Rightarrow>
   (err + cookie list \<times> legacyStep option) \<times> request list" where
  "LoginCred_v1 E c credType val password log =
     (let host = Host c
      in case NewRequest E ''POST'' (Lit (buildURL ''auth'' host ''/v2/login'')) EmptyObject of
           Inl e \<Rightarrow> (Inl e, log)
         | Inr r0 \<Rightarrow>
            (let r1 = r0\<lparr>Header := header_Set ''Content-Type'' ''application/json'' (Header r0)\<rparr>;
                 r2 = r1\<lparr>Header := header_Set ''Accept'' ''application/json'' (Header r1)\<rparr>
             in case Do E (r2 # log) of
                  DoError e \<Rightarrow> (Inl (TransportError e), r2 # log)
                | Resp resp \<Rightarrow>
                   (case Body resp of
                      Malformed \<Rightarrow> (Inl DecodeError, r2 # log)
                    | Json j \<Rightarrow>
                       (let apiResp = decode_unexported j
                                        \<lparr>Errors = [], User = None, TwoStepVerificationData = None\<rparr>
                        in if length (Errors apiResp) > 0 then
                             (Inl (errorsResponseError (Errors apiResp)), r2 # log)
                           else if StatusCode resp < 200 \<and> StatusCode resp \<ge> 300 then
                             (Inl (statusError (StatusCode resp) None), r2 # log)
                           else
                             (case TwoStepVerificationData apiResp of
                                Some d \<Rightarrow>
                                  (case User apiResp of
                                     None \<Rightarrow> (Inl NilDereference, r2 # log)
                                   | Some u \<Rightarrow>
                                       (Inr ([],
                                             Some \<lparr>legacy_cfg = \<lparr>Host = host\<rparr>,
                                                   legacy_req = \<lparr>Username = Name u,
                                                                 Ticket = SentTicket d,
                                                                 ActionType = ''Login'',
                                                                 VerifyCode = [],
                                                                 RememberDevice = False\<rparr>,
                                                   legacy_MediaType = SentMediaType d\<rparr>),
                                        r2 # log))
                              | None \<Rightarrow> (Inr (Cookies resp, None), r2 # log))))))"

text \<open>
  The later \<^verbatim>\<open>func (cfg *Config) LoginCred(cred Cred, password []byte)\<close>, which adds the
  \<^verbatim>\<open>UserID\<close> special case in front; the rest of its body is that of the oldest version,
  line for line.
\<close>

definition LoginCred_v2 ::
  "env \<Rightarrow> legacyConfig \<Rightarrow> Cred \<Rightarrow> string \<Rightarrow> request list \<Rightarrow>
   (err + cookie list \<times> legacyStep option) \<times> request list" where
  "LoginCred_v2 E c cred password log =
     (if ToLower E (Type cred) = ''UserID'' then
        (case ParseInt (Ident cred) of
           Inl e \<Rightarrow> (Inl e, log)
         | Inr userID \<Rightarrow>
            (case getUsername_legacy E (Host c) userID log of
               (Inl e, log1) \<Rightarrow> (Inl e, log1)
             | (Inr name, log1) \<Rightarrow> LoginCred_v1 E c ''Username'' name password log1))
      else LoginCred_v1 E c (Type cred) (Ident cred) password log)"

section \<open>Example exchanges\<close>

text \<open>The zero \<^verbatim>\<open>Config\<close>, which the package documents as valid, and a JSON object with no key.\<close>

definition zeroConfig :: Config where
  "zeroConfig = \<lparr>Token = [], LoginEndpoint = [], LogoutEndpoint = [], VerifyEndpoint = [],
                 ResendEndpoint = [], UserIDEndpoint = []\<rparr>"

definition emptyObject :: jsonObject where
  "emptyObject = \<lparr>j_errors = Absent, j_user = Absent, j_twoStepVerificationData = Absent,
                  j_Username = Absent, j_top_mediaType = Absent, j_top_ticket = Absent\<rparr>"

text \<open>
  An environment in which every URL is accepted and the Unicode lower-casing is the
  bytewise one.
\<close>

definition plainEnv :: "(request list \<Rightarrow> doResult) \<Rightarrow> env" where
  "plainEnv f = \<lparr>Do = f, bad_url = (\<lambda>_. False), unicode_ToLower = map lowerASCII\<rparr>"

text \<open>
  The answer of an endpoint that rejects the token: status 403, first error with code 0,
  and the header \<^verbatim>\<open>X-CSRF-TOKEN: t\<close> unless \<open>t\<close> is empty.
\<close>

definition tokenFailureJson :: jsonError where
  "tokenFailureJson =
     \<lparr>j_code = Val 0, j_message = Val ''Token Validation Failed'', j_field = Absent\<rparr>"

definition tokenFailure :: ErrorResponse where
  "tokenFailure = \<lparr>Code = 0, Message = ''Token Validation Failed'', Field = []\<rparr>"

definition resp403 :: "string \<Rightarrow> response" where
  "resp403 t = \<lparr>StatusCode = 403,
               RespHeader = (if t = [] then [] else [(tokenHeader, t)]),
               Cookies = [],
               Body = Json (emptyObject\<lparr>j_errors := Val [tokenFailureJson]\<rparr>)\<rparr>"

definition always403 :: "string \<Rightarrow> env" where
  "always403 t = plainEnv (\<lambda>_. Resp (resp403 t))"

text \<open>What the claims call a token rejection, and the token a response carries.\<close>

definition tokenRejection :: "doResult \<Rightarrow> bool" where
  "tokenRejection d =
     (case d of
        DoError _ \<Rightarrow> False
      | Resp r \<Rightarrow>
          StatusCode r = 403 \<and>
          (case Body r of
             Malformed \<Rightarrow> False
           | Json j \<Rightarrow> (case j_errors j of Val (e # _) \<Rightarrow> j_code e = Val 0 | _ \<Rightarrow> False)))"

definition tokenOf :: "doResult \<Rightarrow> string" where
  "tokenOf d = (case d of DoError _ \<Rightarrow> [] | Resp r \<Rightarrow> header_Get tokenHeader (RespHeader r))"

text \<open>The request as \<^verbatim>\<open>requestAPI\<close> sends it first: with the stored token, if there is one.\<close>

definition withToken :: "Config \<Rightarrow> request \<Rightarrow> request" where
  "withToken c r =
     (if Token c \<noteq> [] then r\<lparr>Header := header_Set tokenHeader (Token c) (Header r)\<rparr> else r)"

definition sentTokens :: "request list \<Rightarrow> string list" where
  "sentTokens log = map (\<lambda>r. header_Get tokenHeader (Header r)) log"

text \<open>
  What \<^verbatim>\<open>requestAPI\<close> returns is decided by the answer to the last request it sent: every
  return after an answer goes through \<^verbatim>\<open>ifStatus\<close> with the status code of that answer.
\<close>

definition outcomeOf ::
  "('a \<Rightarrow> ErrorResponse list) \<Rightarrow> doResult \<Rightarrow> 'a \<Rightarrow> response option \<times> err option" where
  "outcomeOf errs d a' =
     (case d of
        DoError e \<Rightarrow> (None, Some (TransportError e))
      | Resp r \<Rightarrow>
          (case Body r of
             Malformed \<Rightarrow> (Some r, ifStatus (StatusCode r) (Some DecodeError))
           | Json j \<Rightarrow>
               if errs a' = [] then (Some r, ifStatus (StatusCode r) None)
               else (None, ifStatus (StatusCode r) (Some (errorsResponseError (errs a'))))))"


text \<open>An endpoint that gives no token: the same rejection, without the header.\<close>

definition tokenlessRejection ::
  "(jsonObject \<Rightarrow> 'a \<Rightarrow> 'a) \<Rightarrow> ('a \<Rightarrow> ErrorResponse list) \<Rightarrow> doResult \<Rightarrow> bool" where
  "tokenlessRejection dec errs d =
     (case d of
        DoError _ \<Rightarrow> False
      | Resp r \<Rightarrow>
          StatusCode r = 403 \<and> header_Get tokenHeader (RespHeader r) = [] \<and>
          (case Body r of
             Malformed \<Rightarrow> False
           | Json j \<Rightarrow> \<forall>a. case errs (dec j a) of [] \<Rightarrow> False | e # _ \<Rightarrow> Code e = 0))"

text \<open>The configuration after an answer: its token replaces the stored one if it is not empty.\<close>

definition learnToken :: "Config \<Rightarrow> response \<Rightarrow> Config" where
  "learnToken c resp =
     (if header_Get tokenHeader (RespHeader resp) \<noteq> []
      then c\<lparr>Token := header_Get tokenHeader (RespHeader resp)\<rparr> else c)"

text \<open>
  Answers of the login endpoint: one that asks for a second factor and also sets a cookie,
  one with status 500 and an empty object as body, and a plain success.
\<close>

definition sessionCookie :: cookie where
  "sessionCookie = \<lparr>CookieName = ''.ROBLOSECURITY'', CookieValue = ''S1''\<rparr>"

definition respTwoStep :: response where
  "respTwoStep =
     \<lparr>StatusCode = 200, RespHeader = [], Cookies = [sessionCookie],
      Body = Json (emptyObject
               \<lparr>j_user := Val \<lparr>j_name = Val ''alice''\<rparr>,
                j_twoStepVerificationData :=
                  Val \<lparr>j_mediaType = Val ''Email'', j_ticket = Val ''TK1''\<rparr>\<rparr>)\<rparr>"

definition resp500 :: response where
  "resp500 = \<lparr>StatusCode = 500, RespHeader = [], Cookies = [sessionCookie],
              Body = Json emptyObject\<rparr>"

definition respOK :: response where
  "respOK = \<lparr>StatusCode = 200, RespHeader = [], Cookies = [sessionCookie],
             Body = Json (emptyObject\<lparr>j_user := Val \<lparr>j_name = Val ''alice''\<rparr>,
                                      j_errors := Val []\<rparr>)\<rparr>"

text \<open>
  An endpoint that protects itself with the token: a request without the token header is
  rejected, and the rejection carries the token \<^verbatim>\<open>T1\<close>; any request with a token succeeds.
\<close>

definition csrfEnv :: env where
  "csrfEnv = plainEnv (\<lambda>h. case h of
                             [] \<Rightarrow> DoError ''no request''
                           | r # _ \<Rightarrow> if header_Get tokenHeader (Header r) = []
                                      then Resp (resp403 ''T1'') else Resp respOK)"

text \<open>The identity lookup answers with a user name; every other request succeeds.\<close>

definition respLookup :: response where
  "respLookup = \<lparr>StatusCode = 200, RespHeader = [(tokenHeader, ''T9'')], Cookies = [],
                 Body = Json (emptyObject\<lparr>j_Username := Val ''alice''\<rparr>)\<rparr>"

definition lookupEnv :: env where
  "lookupEnv = plainEnv (\<lambda>h. case h of
                               [] \<Rightarrow> DoError ''no request''
                             | r # _ \<Rightarrow> if Method r = ''GET'' then Resp respLookup
                                        else Resp respOK)"

text \<open>
  A pending step, as a login for \<^verbatim>\<open>alice\<close> leaves it, and answers of the resend and
  verify endpoints: a resend that changes the channel and the ticket, a refusal, and a
  verification that succeeds and carries a token.
\<close>

definition pendingStep :: Step where
  "pendingStep =
     \<lparr>cfg = zeroConfig,
      req = \<lparr>Username = ''alice'', Ticket = ''TK1'', ActionType = ''Login'',
             VerifyCode = [], RememberDevice = False\<rparr>,
      MediaType = ''Email''\<rparr>"

definition respResent :: response where
  "respResent = \<lparr>StatusCode = 200, RespHeader = [], Cookies = [],
                 Body = Json (emptyObject\<lparr>j_top_mediaType := Val ''SMS'',
                                          j_top_ticket := Val ''T2''\<rparr>)\<rparr>"

definition respRefused :: response where
  "respRefused =
     \<lparr>StatusCode = 400, RespHeader = [], Cookies = [],
      Body = Json (emptyObject
               \<lparr>j_errors := Val [\<lparr>j_code = Val 10, j_message = Val ''Invalid ticket'',
                                   j_field = Absent\<rparr>]\<rparr>)\<rparr>"

definition respVerified :: response where
  "respVerified = \<lparr>StatusCode = 200, RespHeader = [(tokenHeader, ''T2'')],
                   Cookies = [sessionCookie], Body = Json emptyObject\<rparr>"

text \<open>
  What the specification asks of an error after an answer: outside 200 to 299 it is a
  status error with the status code of the answer, inside it is no status error.
\<close>

definition statusReported :: "response \<Rightarrow> err option \<Rightarrow> bool" where
  "statusReported resp eo =
     (if StatusCode resp < 200 \<or> 300 \<le> StatusCode resp
      then (case eo of None \<Rightarrow> False | Some er \<Rightarrow> StatusCode_of er = Some (StatusCode resp))
      else (case eo of None \<Rightarrow> True | Some er \<Rightarrow> StatusCode_of er = None))"

text \<open>
  A capitalization of a lower-case word: the same letters, each one as it is or as its
  ASCII capital.
\<close>

definition upperASCII :: "char \<Rightarrow> char" where
  "upperASCII ch =
     (if (97::int) \<le> of_char ch \<and> (of_char ch :: int) \<le> 122 then char_of (of_char ch - (32::int)) else ch)"

definition capitalizationOf :: "string \<Rightarrow> string \<Rightarrow> bool" where
  "capitalizationOf w t = list_all2 (\<lambda>a b. b = a \<or> b = upperASCII a) w t"

text \<open>The error of a result, if it is one.\<close>

definition errorOf :: "'e + 'a \<Rightarrow> 'e option" where
  "errorOf r = (case r of Inl e \<Rightarrow> Some e | Inr _ \<Rightarrow> None)"

text \<open>
  The same protected endpoint, with a success answer that has no \<^verbatim>\<open>errors\<close> key at all.
\<close>

definition respOKPlain :: response where
  "respOKPlain = \<lparr>StatusCode = 200, RespHeader = [], Cookies = [sessionCookie],
                  Body = Json (emptyObject\<lparr>j_user := Val \<lparr>j_name = Val ''alice''\<rparr>\<rparr>)\<rparr>"

definition csrfEnvPlain :: env where
  "csrfEnvPlain = plainEnv (\<lambda>h. case h of
                                  [] \<Rightarrow> DoError ''no request''
                                | r # _ \<Rightarrow> if header_Get tokenHeader (Header r) = []
                                           then Resp (resp403 ''T1'') else Resp respOKPlain)"


text \<open>The request that \<^verbatim>\<open>Resend\<close> builds.\<close>

definition resendHTTPRequest :: "Step \<Rightarrow> request" where
  "resendHTTPRequest s =
     \<lparr>Method = ''POST'',
      URL = Lit (if ResendEndpoint (cfg s) = [] then DefaultResendEndpoint
                 else ResendEndpoint (cfg s)),
      Header = header_Set ''Accept'' ''application/json'' [],
      ReqCookies = [],
      ReqBody = TicketBody \<lparr>Username = Username (req s), Ticket = Ticket (req s),
                            ActionType = ActionType (req s)\<rparr>\<rparr>"

text \<open>
  The protected endpoint again, now answering a resend: a request without the token is
  rejected with the token \<^verbatim>\<open>T1\<close>, a request with a token gets the new channel and ticket.
\<close>

definition csrfResendEnv :: env where
  "csrfResendEnv = plainEnv (\<lambda>h. case h of
                                   [] \<Rightarrow> DoError ''no request''
                                 | r # _ \<Rightarrow> if header_Get tokenHeader (Header r) = []
                                            then Resp (resp403 ''T1'') else Resp respResent)"

section \<open>Properties of requestAPI\<close>

lemma header_Get_Set: "header_Get k (header_Set k v h) = v"
  by (simp add: header_Get_def header_Set_def)

lemma header_Get_Set_other: "k' \<noteq> k \<Longrightarrow> header_Get k' (header_Set k v h) = header_Get k' h"
  by (induction h) (auto simp: header_Get_def header_Set_def)

lemma header_Get_Nil: "header_Get k [] = []"
  by (simp add: header_Get_def)

lemma withToken_token:
  "header_Get tokenHeader (Header r) = [] \<Longrightarrow>
   header_Get tokenHeader (Header (withToken c r)) = Token c"
  by (simp add: withToken_def header_Get_Set)

lemma withToken_idem: "Token c = [] \<Longrightarrow> withToken c r = r"
  by (simp add: withToken_def)

text \<open>One turn of \<^verbatim>\<open>requestAPI\<close>, with the request that goes out named.\<close>

lemma requestAPI_unfold:
  "requestAPI E dec errs c r apiResp log =
     (case Do E (withToken c r # log) of
        DoError e \<Rightarrow> Some ((None, Some (TransportError e)), c, apiResp, withToken c r # log)
      | Resp resp \<Rightarrow>
          (let c1 = (if header_Get tokenHeader (RespHeader resp) \<noteq> []
                     then c\<lparr>Token := header_Get tokenHeader (RespHeader resp)\<rparr> else c)
           in case Body resp of
                Malformed \<Rightarrow>
                  Some ((Some resp, ifStatus (StatusCode resp) (Some DecodeError)), c1, apiResp,
                        withToken c r # log)
              | Json j \<Rightarrow>
                  (case errs (dec j apiResp) of
                     [] \<Rightarrow> Some ((Some resp, ifStatus (StatusCode resp) None), c1, dec j apiResp,
                                 withToken c r # log)
                   | e # _ \<Rightarrow>
                       if StatusCode resp = 403 \<and> Code e = 0
                          \<and> header_Get tokenHeader (Header (withToken c r)) = []
                       then requestAPI E dec errs c1 (withToken c r) (dec j apiResp)
                              (withToken c r # log)
                       else Some ((None, ifStatus (StatusCode resp)
                                           (Some (errorsResponseError (errs (dec j apiResp))))),
                                  c1, dec j apiResp, withToken c r # log))))"
  by (subst requestAPI.simps)
     (auto simp: withToken_def Let_def split: doResult.splits body.splits list.splits)

lemmas requestAPI_induct = requestAPI.raw_induct [rotated 1, consumes 1, case_names step]

text \<open>\<^verbatim>\<open>requestAPI\<close> changes nothing of the configuration but the token.\<close>

lemma requestAPI_config:
  assumes "requestAPI E dec errs c r a log = Some (res, c', a', log')"
  shows "c' = c\<lparr>Token := Token c'\<rparr>"
  using assms
proof (induction E dec errs c r a log "(res, c', a', log')" arbitrary: res c' a' log'
       rule: requestAPI_induct)
  case (step f E dec errs c req apiResp log)
  show ?case using step(2)
    by (auto simp: Let_def split: doResult.splits body.splits list.splits if_splits
             dest!: step(1))
qed

text \<open>The log only grows, and the first request sent is the given one with the stored token.\<close>

lemma requestAPI_log:
  assumes "requestAPI E dec errs c r a log = Some (res, c', a', log')"
  shows "\<exists>rs. log' = rs @ withToken c r # log"
  using assms
proof (induction E dec errs c r a log "(res, c', a', log')" arbitrary: res c' a' log'
       rule: requestAPI_induct)
  case (step f E dec errs c req apiResp log)
  show ?case using step(2)
    by (auto simp: Let_def withToken_def split: doResult.splits body.splits list.splits if_splits
             dest!: step(1))
qed

lemma requestAPI_outcome:
  assumes "requestAPI E dec errs c r a log = Some (res, c', a', log')"
  shows "res = outcomeOf errs (Do E log') a'"
  using assms
proof (induction E dec errs c r a log "(res, c', a', log')" arbitrary: res c' a' log'
       rule: requestAPI_induct)
  case (step f E dec errs c req apiResp log)
  show ?case using step(2)
    by (auto simp: Let_def outcomeOf_def split: doResult.splits body.splits list.splits if_splits
             dest!: step(1))
qed

lemma requestAPI_decoded:
  assumes "requestAPI E dec errs c r a log = Some (res, c', a', log')"
    and "Do E log' = Resp resp" and "Body resp = Json j"
  shows "\<exists>a0. a' = dec j a0"
  using assms
proof (induction E dec errs c r a log "(res, c', a', log')" arbitrary: res c' a' log'
       rule: requestAPI_induct)
  case (step f E dec errs c req apiResp log)
  show ?case using step(2-)
    by (auto simp: Let_def split: doResult.splits body.splits list.splits if_splits
             dest!: step(1))
qed


text \<open>The retry: the same request again, with what the answer has taught.\<close>

lemma requestAPI_retry:
  assumes "Token c = []" and "header_Get tokenHeader (Header r) = []"
    and "Do E (r # log) = Resp resp" and "Body resp = Json j"
    and "errs (dec j a) = e # es" and "StatusCode resp = 403" and "Code e = 0"
  shows "requestAPI E dec errs c r a log =
         requestAPI E dec errs
           (if header_Get tokenHeader (RespHeader resp) \<noteq> []
            then c\<lparr>Token := header_Get tokenHeader (RespHeader resp)\<rparr> else c)
           r (dec j a) (r # log)"
  using assms
  by (subst requestAPI_unfold) (simp add: withToken_idem)


text \<open>
  Against an endpoint that rejects every request and never gives a token, a call that
  starts without a token never returns.
\<close>

lemma requestAPI_tokenless_loop_aux:
  assumes "requestAPI E dec errs c r a log = Some y"
  shows "(\<forall>h. tokenlessRejection dec errs (Do E h)) \<longrightarrow> Token c = [] \<longrightarrow>
         header_Get tokenHeader (Header r) = [] \<longrightarrow> False"
  using assms
proof (induction E dec errs c r a log y rule: requestAPI_induct)
  case (step f E dec errs c req apiResp log y)
  show ?case
  proof (intro impI)
    assume all: "\<forall>h. tokenlessRejection dec errs (Do E h)"
      and c: "Token c = []" and r: "header_Get tokenHeader (Header req) = []"
    from all have "tokenlessRejection dec errs (Do E (req # log))" by blast
    then obtain resp j where d: "Do E (req # log) = Resp resp" "StatusCode resp = 403"
        "header_Get tokenHeader (RespHeader resp) = []" "Body resp = Json j"
        and e: "\<forall>a. case errs (dec j a) of [] \<Rightarrow> False | e # _ \<Rightarrow> Code e = 0"
      by (auto simp: tokenlessRejection_def split: doResult.splits body.splits)
    from e obtain e1 es where e1: "errs (dec j apiResp) = e1 # es" "Code e1 = 0"
      by (cases "errs (dec j apiResp)") (auto dest: spec [of _ apiResp])
    from step(2) c r d e1 have "f E dec errs c req (dec j apiResp) (req # log) = Some y"
      by (simp add: Let_def)
    from step(1) [OF this] all c r show False by blast
  qed
qed

lemma requestAPI_tokenless_loop:
  assumes "\<forall>h. tokenlessRejection dec errs (Do E h)"
    and "Token c = []" and "header_Get tokenHeader (Header r) = []"
  shows "requestAPI E dec errs c r a log = None"
proof (cases "requestAPI E dec errs c r a log")
  case None
  then show ?thesis .
next
  case (Some y)
  from requestAPI_tokenless_loop_aux [OF Some] assms show ?thesis by blast
qed

text \<open>
  The retry decodes into the value that holds the first answer. When the answer to the
  retry has no \<^verbatim>\<open>errors\<close> key, the errors of the rejection stay in place, and the call
  fails with them although the retry was answered with status 200.
\<close>

lemma Login_retry_keeps_first_errors:
  "Login csrfEnvPlain zeroConfig ''alice'' ''pw'' [] =
     Some (Inl (Errorf ''login'' (errorsResponseError [tokenFailure])),
           [withToken (zeroConfig\<lparr>Token := ''T1''\<rparr>)
              (loginHTTPRequest zeroConfig \<lparr>Type = ''Username'', Ident = ''alice''\<rparr> ''pw''),
            loginHTTPRequest zeroConfig \<lparr>Type = ''Username'', Ident = ''alice''\<rparr> ''pw''])"
  by code_simp

subsection \<open>The request of LoginCred\<close>

lemma ToLower_Username: "ToLower E ''Username'' = ''username''"
  by (simp add: ToLower_def isASCII_def lowerASCII_def char_of_def)

lemma loginHTTPRequest_no_token:
  "header_Get tokenHeader (Header (loginHTTPRequest c cred pw)) = []"
  by (simp add: loginHTTPRequest_def header_Get_def header_Set_def tokenHeader_def)

lemma LoginCred_send_unfold:
  assumes "\<not> bad_url E (Lit (if LoginEndpoint c = [] then DefaultLoginEndpoint else LoginEndpoint c))"
  shows "LoginCred_send E c cred password log =
     (case requestAPI E decode_loginResponse Errors c (loginHTTPRequest c cred password)
                       \<lparr>Errors = [], User = None, TwoStepVerificationData = None\<rparr> log of
                  None \<Rightarrow> None
                | Some ((_, Some e), _, _, log') \<Rightarrow> Some (Inl (Errorf ''login'' e), log')
                | Some ((None, None), _, _, log') \<Rightarrow> Some (Inl NilDereference, log')
                | Some ((Some resp, None), c', apiResp, log') \<Rightarrow>
                   (case TwoStepVerificationData apiResp of
                      None \<Rightarrow> Some (Inr (Cookies resp, None), log')
                    | Some d \<Rightarrow>
                       (case User apiResp of
                          None \<Rightarrow> Some (Inl NilDereference, log')
                        | Some u \<Rightarrow>
                            Some (Inr (Cookies resp,
                                       Some \<lparr>cfg = c',
                                             req = \<lparr>Username = Name u,
                                                    Ticket = SentTicket d,
                                                    ActionType = ''Login'',
                                                    VerifyCode = [],
                                                    RememberDevice = False\<rparr>,
                                             MediaType = SentMediaType d\<rparr>),
                                  log'))))"
  using assms
  by (simp add: LoginCred_send_def NewRequest_def loginHTTPRequest_def Let_def header_Set_def)

lemma tokenRejectionE:
  assumes "tokenRejection d"
  obtains r j e es where "d = Resp r" "StatusCode r = 403" "Body r = Json j"
    "j_errors j = Val (e # es)" "j_code e = Val 0"
  using assms
  by (auto simp: tokenRejection_def split: doResult.splits body.splits jfield.splits list.splits)

text \<open>The first error of an answer keeps the code the answer gives it, whatever was there.\<close>

lemma decode_Errors_first:
  assumes "j_code e = Val n"
  shows "\<exists>x xs. decode_Errors (Val (e # es)) old = x # xs \<and> Code x = n"
  using assms
  by (cases old) (simp_all add: decode_Errors_def decode_ErrorResponse_def decode_int_def)

lemma decode_Errors_none:
  assumes "f = Absent \<or> f = Null \<or> f = Val []"
  shows "decode_Errors f [] = []"
  using assms by (auto simp: decode_Errors_def)

text \<open>
  When every answer is a token rejection, the configuration holds no token and the first
  answer carries one, \<^verbatim>\<open>Login\<close> returns after two requests: the second carries the token of
  the first answer.
\<close>

lemma Login_two_attempts:
  assumes all: "\<forall>h. tokenRejection (Do E h)"
    and url: "\<not> bad_url E (Lit (if LoginEndpoint c = [] then DefaultLoginEndpoint else LoginEndpoint c))"
    and notoken: "Token c = []"
    and learned: "tokenOf (Do E (loginHTTPRequest c \<lparr>Type = ''Username'', Ident = username\<rparr> password # log)) \<noteq> []"
  shows "\<exists>e r1 r2. Login E c username password log = Some (Inl e, r2 # r1 # log)
           \<and> StatusCode_of e = Some 403
           \<and> header_Get tokenHeader (Header r1) = []
           \<and> header_Get tokenHeader (Header r2) = tokenOf (Do E (r1 # log))"
proof -
  let ?cred = "\<lparr>Type = ''Username'', Ident = username\<rparr>"
  let ?r1 = "loginHTTPRequest c ?cred password"
  let ?a0 = "\<lparr>Errors = [], User = None, TwoStepVerificationData = None\<rparr>"
  from all have "tokenRejection (Do E (?r1 # log))" by blast
  then obtain resp1 j1 e1 es1 where
    d1: "Do E (?r1 # log) = Resp resp1" "StatusCode resp1 = 403" "Body resp1 = Json j1"
        "j_errors j1 = Val (e1 # es1)" "j_code e1 = Val 0"
    by (rule tokenRejectionE)
  let ?t = "header_Get tokenHeader (RespHeader resp1)"
  from learned d1(1) have t: "?t \<noteq> []" by (simp add: tokenOf_def)
  let ?c1 = "c\<lparr>Token := ?t\<rparr>"
  let ?a1 = "decode_loginResponse j1 ?a0"
  let ?r2 = "withToken ?c1 ?r1"
  from decode_Errors_first [OF d1(5), of es1 "[]"] d1(4)
  obtain x1 xs1 where errs1: "Errors ?a1 = x1 # xs1" "Code x1 = 0"
    by (auto simp: decode_loginResponse_def)
  have step1: "requestAPI E decode_loginResponse Errors c ?r1 ?a0 log =
               requestAPI E decode_loginResponse Errors ?c1 ?r1 ?a1 (?r1 # log)"
    using requestAPI_retry [where errs = Errors and dec = decode_loginResponse,
            OF notoken loginHTTPRequest_no_token d1(1) d1(3) errs1(1) d1(2) errs1(2)] t
    by simp
  have tok2: "header_Get tokenHeader (Header ?r2) = ?t"
    by (simp add: withToken_token loginHTTPRequest_no_token)
  from all have "tokenRejection (Do E (?r2 # ?r1 # log))" by blast
  then obtain resp2 j2 e2 es2 where
    d2: "Do E (?r2 # ?r1 # log) = Resp resp2" "StatusCode resp2 = 403" "Body resp2 = Json j2"
        "j_errors j2 = Val (e2 # es2)" "j_code e2 = Val 0"
    by (rule tokenRejectionE)
  from decode_Errors_first [OF d2(5), of es2 "Errors ?a1"] d2(4)
  obtain x2 xs2 where errs2: "Errors (decode_loginResponse j2 ?a1) = x2 # xs2"
    by (auto simp: decode_loginResponse_def)
  have step2: "requestAPI E decode_loginResponse Errors ?c1 ?r1 ?a1 (?r1 # log) =
        Some ((None, Some (statusError 403 (Some (errorsResponseError (x2 # xs2))))),
              (if header_Get tokenHeader (RespHeader resp2) \<noteq> []
                     then ?c1\<lparr>Token := header_Get tokenHeader (RespHeader resp2)\<rparr> else ?c1),
              decode_loginResponse j2 ?a1, ?r2 # ?r1 # log)"
    using d2 errs2 tok2 t
    by (subst requestAPI_unfold) (simp add: ifStatus_def Let_def)
  have "Login E c username password log =
        Some (Inl (Errorf ''login'' (statusError 403 (Some (errorsResponseError (x2 # xs2))))),
              ?r2 # ?r1 # log)"
    using url step1 step2
    by (simp add: Login_def LoginCred_def ToLower_Username LoginCred_send_unfold)
  moreover have "header_Get tokenHeader (Header ?r2) = tokenOf (Do E (?r1 # log))"
    using tok2 d1(1) by (simp add: tokenOf_def)
  ultimately show ?thesis
    using loginHTTPRequest_no_token by auto
qed

text \<open>With a token already stored, the same endpoint is asked once.\<close>

lemma Login_one_attempt:
  "Login (always403 ''T1'') (zeroConfig\<lparr>Token := ''T0''\<rparr>) ''alice'' ''pw'' [] =
     Some (Inl (Errorf ''login'' (statusError 403 (Some (errorsResponseError [tokenFailure])))),
           [withToken (zeroConfig\<lparr>Token := ''T0''\<rparr>)
              (loginHTTPRequest zeroConfig \<lparr>Type = ''Username'', Ident = ''alice''\<rparr> ''pw'')])"
  by code_simp

text \<open>An answer without errors ends the call at once.\<close>

lemma requestAPI_direct:
  assumes "Do E (withToken c r # log) = Resp resp" and "Body resp = Json j"
    and "errs (dec j a) = []"
  shows "requestAPI E dec errs c r a log =
         Some ((Some resp, ifStatus (StatusCode resp) None), learnToken c resp, dec j a,
               withToken c r # log)"
  using assms
  by (subst requestAPI_unfold) (simp add: learnToken_def)

lemma LoginCred_send_log:
  assumes "\<not> bad_url E (Lit (if LoginEndpoint c = [] then DefaultLoginEndpoint else LoginEndpoint c))"
    and "LoginCred_send E c cred password log = Some (res, log')"
  shows "\<exists>rs. log' = rs @ withToken c (loginHTTPRequest c cred password) # log"
proof -
  let ?R = "requestAPI E decode_loginResponse Errors c (loginHTTPRequest c cred password)
              \<lparr>Errors = [], User = None, TwoStepVerificationData = None\<rparr> log"
  from assms(2) obtain out c' a' where r: "?R = Some (out, c', a', log')"
    unfolding LoginCred_send_unfold [OF assms(1)]
    by (auto split: option.splits prod.splits)
  from requestAPI_log [OF r] show ?thesis .
qed





subsection \<open>Step.Resend\<close>

lemma outcomeOf_None:
  assumes "outcomeOf errs d a' = (ro, None)"
  shows "\<exists>resp j. d = Resp resp \<and> Body resp = Json j \<and> errs a' = [] \<and> ro = Some resp
           \<and> 200 \<le> StatusCode resp \<and> StatusCode resp < 300"
  using assms
  by (auto simp: outcomeOf_def ifStatus_def split: doResult.splits body.splits if_splits)

lemma Resend_unfold:
  assumes "\<not> bad_url E (Lit (if ResendEndpoint (cfg s) = [] then DefaultResendEndpoint else ResendEndpoint (cfg s)))"
  shows "Resend E s log =
    (case requestAPI E decode_resendResponse Errors (cfg s)
            \<lparr>Method = ''POST'',
             URL = Lit (if ResendEndpoint (cfg s) = [] then DefaultResendEndpoint else ResendEndpoint (cfg s)),
             Header = header_Set ''Accept'' ''application/json'' [],
             ReqCookies = [],
             ReqBody = TicketBody \<lparr>Username = Username (req s), Ticket = Ticket (req s),
                             ActionType = ActionType (req s)\<rparr>\<rparr>
                       \<lparr>Errors = [], RespMediaType = [], RespTicket = []\<rparr> log of
                  None \<Rightarrow> None
                | Some ((_, Some e), c', _, log') \<Rightarrow> Some (Some e, s\<lparr>cfg := c'\<rparr>, log')
                | Some ((_, None), c', apiResp, log') \<Rightarrow>
                    Some (None,
                          s\<lparr>cfg := c',
                            MediaType := RespMediaType apiResp,
                            req := (req s)\<lparr>Ticket := RespTicket apiResp\<rparr>\<rparr>,
                          log'))"
  using assms by (simp add: Resend_def NewRequest_def Let_def)

text \<open>
  An answer with a 2XX status and no errors to the first request of \<^verbatim>\<open>Resend\<close>: the step
  takes the channel and the ticket of the answer.
\<close>

lemma Resend_success:
  assumes url: "\<not> bad_url E (URL (resendHTTPRequest s))"
    and d: "Do E (withToken (cfg s) (resendHTTPRequest s) # log) = Resp resp"
    and j: "Body resp = Json j"
    and e: "j_errors j = Absent \<or> j_errors j = Null \<or> j_errors j = Val []"
    and st: "200 \<le> StatusCode resp" "StatusCode resp < 300"
  shows "Resend E s log =
         Some (None,
               s\<lparr>cfg := learnToken (cfg s) resp,
                 MediaType := decode_string (j_top_mediaType j) [],
                 req := (req s)\<lparr>Ticket := decode_string (j_top_ticket j) []\<rparr>\<rparr>,
               withToken (cfg s) (resendHTTPRequest s) # log)"
proof -
  let ?a = "\<lparr>Errors = [], RespMediaType = [], RespTicket = []\<rparr>"
  from e have "Errors (decode_resendResponse j ?a) = []"
    by (auto simp: decode_resendResponse_def decode_Errors_def)
  from requestAPI_direct [where errs = Errors and dec = decode_resendResponse, OF d j this]
  have "requestAPI E decode_resendResponse Errors (cfg s) (resendHTTPRequest s) ?a log =
        Some ((Some resp, ifStatus (StatusCode resp) None), learnToken (cfg s) resp,
              decode_resendResponse j ?a, withToken (cfg s) (resendHTTPRequest s) # log)" .
  moreover from st have "ifStatus (StatusCode resp) None = None"
    by (simp add: ifStatus_def)
  moreover from url have "\<not> bad_url E (Lit (if ResendEndpoint (cfg s) = [] then DefaultResendEndpoint
                                            else ResendEndpoint (cfg s)))"
    by (simp add: resendHTTPRequest_def)
  ultimately show ?thesis
    unfolding Resend_unfold [OF \<open>\<not> bad_url E (Lit (if ResendEndpoint (cfg s) = [] then DefaultResendEndpoint
                                            else ResendEndpoint (cfg s)))\<close>]
    by (simp add: resendHTTPRequest_def decode_resendResponse_def)
qed

text \<open>Whenever \<^verbatim>\<open>Resend\<close> returns an error, the channel and the pending request are as before.\<close>

lemma Resend_error_frame:
  assumes "Resend E s log = Some (Some e, s', log')"
  shows "MediaType s' = MediaType s \<and> req s' = req s"
proof (cases "bad_url E (Lit (if ResendEndpoint (cfg s) = [] then DefaultResendEndpoint else ResendEndpoint (cfg s)))")
  case True
  with assms show ?thesis
    by (auto simp: Resend_def NewRequest_def Let_def)
next
  case False
  from assms show ?thesis
    unfolding Resend_unfold [OF False]
    by (auto split: option.splits prod.splits)
qed

subsection \<open>Step.Verify\<close>

lemma Verify_unfold:
  assumes "\<not> bad_url E (Lit (if VerifyEndpoint (cfg s) = [] then DefaultVerifyEndpoint else VerifyEndpoint (cfg s)))"
  shows "Verify E s code remember log =
    (case requestAPI E decode_errorsResponse Errors (cfg s)
            \<lparr>Method = ''POST'',
             URL = Lit (if VerifyEndpoint (cfg s) = [] then DefaultVerifyEndpoint else VerifyEndpoint (cfg s)),
             Header = header_Set ''Accept'' ''application/json''
                        (header_Set ''Content-Type'' ''application/json'' []),
             ReqCookies = [],
             ReqBody = VerifyBody ((req s)\<lparr>VerifyCode := code, RememberDevice := remember\<rparr>)\<rparr>
            \<lparr>Errors = []\<rparr> log of
                  None \<Rightarrow> None
                | Some ((_, Some e), c', _, log') \<Rightarrow>
                    Some (Inl (Errorf ''verify'' e), s\<lparr>cfg := c'\<rparr>, log')
                | Some ((None, None), c', _, log') \<Rightarrow>
                    Some (Inl NilDereference, s\<lparr>cfg := c'\<rparr>, log')
                | Some ((Some resp, None), c', _, log') \<Rightarrow>
                    Some (Inr (Cookies resp), s\<lparr>cfg := c'\<rparr>, log'))"
  using assms by (simp add: Verify_def NewRequest_def Let_def)

subsection \<open>getUsername\<close>

lemma getUsername_unfold:
  assumes "\<not> bad_url E (Sprintf (if UserIDEndpoint c = [] then DefaultUserIDEndpoint else UserIDEndpoint c) userID)"
  shows "getUsername E c userID log =
     (case requestAPI E decode_usernameResponse Errors c
             \<lparr>Method = ''GET'',
              URL = Sprintf (if UserIDEndpoint c = [] then DefaultUserIDEndpoint else UserIDEndpoint c) userID,
              Header = [], ReqCookies = [], ReqBody = NoBody\<rparr>
             \<lparr>Errors = [], RespUsername = []\<rparr> log of
        None \<Rightarrow> None
      | Some ((_, Some e), _, _, log') \<Rightarrow> Some (Inl (Errorf ''user from ID'' e), log')
      | Some ((_, None), _, apiResp, log') \<Rightarrow> Some (Inr (RespUsername apiResp), log'))"
  using assms by (simp add: getUsername_def NewRequest_def Let_def)

subsection \<open>Status errors in the current client\<close>

text \<open>
  In the current client every operation reports the status of the last answer: all of
  them return through \<^verbatim>\<open>requestAPI\<close>, and so through \<^verbatim>\<open>ifStatus\<close>.
\<close>

lemma outcomeOf_statusReported:
  assumes "outcomeOf errs (Resp resp) a' = (ro, eo)"
  shows "statusReported resp eo"
  using assms
  by (auto simp: outcomeOf_def statusReported_def ifStatus_def split: body.splits if_splits)

lemma requestAPI_statusReported:
  assumes "requestAPI E dec errs c r a log = Some ((ro, eo), c', a', log')"
    and "Do E log' = Resp resp"
  shows "statusReported resp eo"
  using requestAPI_outcome [OF assms(1)] assms(2) outcomeOf_statusReported [of errs resp a' ro eo]
  by simp

lemma statusReported_Errorf:
  "statusReported resp (Some e) \<Longrightarrow> statusReported resp (Some (Errorf p e))"
  by (auto simp: statusReported_def split: if_splits)

lemma statusReported_None:
  "statusReported resp None \<Longrightarrow> StatusCode_of e = None \<Longrightarrow> statusReported resp (Some e)"
  by (auto simp: statusReported_def split: if_splits)

lemma Logout_unfold:
  assumes "\<not> bad_url E (Lit (if LogoutEndpoint c = [] then DefaultLogoutEndpoint else LogoutEndpoint c))"
  shows "Logout E c cookies log =
     (case requestAPI E decode_errorsResponse Errors c
             \<lparr>Method = ''POST'',
              URL = Lit (if LogoutEndpoint c = [] then DefaultLogoutEndpoint else LogoutEndpoint c),
              Header = header_Set ''Accept'' ''application/json'' [],
              ReqCookies = cookies, ReqBody = NoBody\<rparr> \<lparr>Errors = []\<rparr> log of
                  None \<Rightarrow> None
                | Some ((_, Some e), _, _, log') \<Rightarrow> Some (Some (Errorf ''logout'' e), log')
                | Some ((_, None), _, _, log') \<Rightarrow> Some (None, log'))"
  using assms by (simp add: Logout_def NewRequest_def Let_def)

lemma Logout_status:
  assumes "\<not> bad_url E (Lit (if LogoutEndpoint c = [] then DefaultLogoutEndpoint else LogoutEndpoint c))"
    and "Logout E c cookies log = Some (eo, log')" and "Do E log' = Resp resp"
  shows "statusReported resp eo"
proof -
  from assms(2) obtain ro eo' c' a' where
    r: "requestAPI E decode_errorsResponse Errors c
             \<lparr>Method = ''POST'',
              URL = Lit (if LogoutEndpoint c = [] then DefaultLogoutEndpoint else LogoutEndpoint c),
              Header = header_Set ''Accept'' ''application/json'' [],
              ReqCookies = cookies, ReqBody = NoBody\<rparr> \<lparr>Errors = []\<rparr> log = Some ((ro, eo'), c', a', log')"
    and e: "eo = map_option (Errorf ''logout'') eo'"
    unfolding Logout_unfold [OF assms(1)]
    by (auto split: option.splits prod.splits)
  from requestAPI_statusReported [OF r assms(3)] e show ?thesis
    by (cases eo') (auto intro: statusReported_Errorf)
qed

lemma Verify_status:
  assumes "\<not> bad_url E (Lit (if VerifyEndpoint (cfg s) = [] then DefaultVerifyEndpoint else VerifyEndpoint (cfg s)))"
    and "Verify E s code remember log = Some (res, s', log')" and "Do E log' = Resp resp"
  shows "statusReported resp (errorOf res)"
proof -
  from assms(2) obtain ro eo' c' a' where
    r: "requestAPI E decode_errorsResponse Errors (cfg s)
            \<lparr>Method = ''POST'',
             URL = Lit (if VerifyEndpoint (cfg s) = [] then DefaultVerifyEndpoint else VerifyEndpoint (cfg s)),
             Header = header_Set ''Accept'' ''application/json''
                        (header_Set ''Content-Type'' ''application/json'' []),
             ReqCookies = [],
             ReqBody = VerifyBody ((req s)\<lparr>VerifyCode := code, RememberDevice := remember\<rparr>)\<rparr>
            \<lparr>Errors = []\<rparr> log = Some ((ro, eo'), c', a', log')"
    and e: "errorOf res = (case eo' of Some e \<Rightarrow> Some (Errorf ''verify'' e)
                            | None \<Rightarrow> (case ro of None \<Rightarrow> Some NilDereference | Some _ \<Rightarrow> None))"
    unfolding Verify_unfold [OF assms(1)]
    by (auto simp: errorOf_def split: option.splits prod.splits)
  from requestAPI_outcome [OF r] assms(3) have "eo' = None \<Longrightarrow> ro \<noteq> None"
    by (auto simp: outcomeOf_def ifStatus_def split: body.splits if_splits)
  with requestAPI_statusReported [OF r assms(3)] e show ?thesis
    by (cases eo') (auto intro: statusReported_Errorf)
qed

lemma Resend_status:
  assumes "\<not> bad_url E (Lit (if ResendEndpoint (cfg s) = [] then DefaultResendEndpoint else ResendEndpoint (cfg s)))"
    and "Resend E s log = Some (eo, s', log')" and "Do E log' = Resp resp"
  shows "statusReported resp eo"
proof -
  from assms(2) obtain ro eo' c' a' where
    r: "requestAPI E decode_resendResponse Errors (cfg s)
            \<lparr>Method = ''POST'',
             URL = Lit (if ResendEndpoint (cfg s) = [] then DefaultResendEndpoint else ResendEndpoint (cfg s)),
             Header = header_Set ''Accept'' ''application/json'' [],
             ReqCookies = [],
             ReqBody = TicketBody \<lparr>Username = Username (req s), Ticket = Ticket (req s),
                             ActionType = ActionType (req s)\<rparr>\<rparr>
                       \<lparr>Errors = [], RespMediaType = [], RespTicket = []\<rparr> log = Some ((ro, eo'), c', a', log')"
    and e: "eo = eo'"
    unfolding Resend_unfold [OF assms(1)]
    by (auto split: option.splits prod.splits)
  from requestAPI_statusReported [OF r assms(3)] e show ?thesis by simp
qed

lemma getUsername_status:
  assumes "\<not> bad_url E (Sprintf (if UserIDEndpoint c = [] then DefaultUserIDEndpoint else UserIDEndpoint c) userID)"
    and "getUsername E c userID log = Some (res, log')" and "Do E log' = Resp resp"
  shows "statusReported resp (errorOf res)"
proof -
  from assms(2) obtain ro eo' c' a' where
    r: "requestAPI E decode_usernameResponse Errors c
             \<lparr>Method = ''GET'',
              URL = Sprintf (if UserIDEndpoint c = [] then DefaultUserIDEndpoint else UserIDEndpoint c) userID,
              Header = [], ReqCookies = [], ReqBody = NoBody\<rparr>
             \<lparr>Errors = [], RespUsername = []\<rparr> log = Some ((ro, eo'), c', a', log')"
    and e: "errorOf res = map_option (Errorf ''user from ID'') eo'"
    unfolding getUsername_unfold [OF assms(1)]
    by (auto simp: errorOf_def split: option.splits prod.splits)
  from requestAPI_statusReported [OF r assms(3)] e show ?thesis
    by (cases eo') (auto intro: statusReported_Errorf)
qed

lemma LoginCred_send_status:
  assumes "\<not> bad_url E (Lit (if LoginEndpoint c = [] then DefaultLoginEndpoint else LoginEndpoint c))"
    and "LoginCred_send E c cred password log = Some (res, log')" and "Do E log' = Resp resp"
  shows "statusReported resp (errorOf res)"
proof -
  from assms(2) obtain ro eo' c' a' where
    r: "requestAPI E decode_loginResponse Errors c (loginHTTPRequest c cred password)
                       \<lparr>Errors = [], User = None, TwoStepVerificationData = None\<rparr> log = Some ((ro, eo'), c', a', log')"
    and e: "(case eo' of Some e \<Rightarrow> errorOf res = Some (Errorf ''login'' e)
                            | None \<Rightarrow> errorOf res = None \<or> errorOf res = Some NilDereference)"
    unfolding LoginCred_send_unfold [OF assms(1)]
    by (auto simp: errorOf_def split: option.splits prod.splits)
  from requestAPI_statusReported [OF r assms(3)] e show ?thesis
    by (cases eo') (auto simp: statusReported_def intro: statusReported_Errorf split: if_splits)
qed

lemma LoginCred_status:
  assumes "\<not> bad_url E (Lit (if LoginEndpoint c = [] then DefaultLoginEndpoint else LoginEndpoint c))"
    and "\<forall>userID. \<not> bad_url E (Sprintf (if UserIDEndpoint c = [] then DefaultUserIDEndpoint else UserIDEndpoint c) userID)"
    and "LoginCred E c cred password log = Some (res, log')" and "log' \<noteq> log"
    and "Do E log' = Resp resp"
  shows "statusReported resp (errorOf res)"
proof (cases "ToLower E (Type cred) = ''userid''")
  case False
  with assms(3) have "LoginCred_send E c cred password log = Some (res, log')"
    by (simp add: LoginCred_def)
  from LoginCred_send_status [OF assms(1) this assms(5)] show ?thesis .
next
  case True
  show ?thesis
  proof (cases "ParseInt (Ident cred)")
    case (Inl e)
    with True assms(3,4) show ?thesis by (simp add: LoginCred_def)
  next
    case (Inr userID)
    from assms(2) have u: "\<not> bad_url E (Sprintf (if UserIDEndpoint c = [] then DefaultUserIDEndpoint else UserIDEndpoint c) userID)"
      by blast
    from True Inr assms(3) obtain r1 log1 where g: "getUsername E c userID log = Some (r1, log1)"
      by (auto simp: LoginCred_def split: option.splits)
    show ?thesis
    proof (cases r1)
      case (Inl e)
      with True Inr g assms(3) have l: "log' = log1" and r: "res = Inl (Errorf ''login'' e)"
        by (auto simp: LoginCred_def)
      from getUsername_status [OF u g] assms(5) l Inl have "statusReported resp (Some e)"
        by (simp add: errorOf_def)
      with r show ?thesis by (simp add: errorOf_def statusReported_Errorf)
    next
      case (Inr name)
      with True \<open>ParseInt (Ident cred) = Inr userID\<close> g assms(3)
      have "LoginCred_send E c \<lparr>Type = ''Username'', Ident = name\<rparr> password log1 = Some (res, log')"
        by (simp add: LoginCred_def)
      from LoginCred_send_status [OF assms(1) this assms(5)] show ?thesis .
    qed
  qed
qed

subsection \<open>The UserID test of the current LoginCred\<close>

text \<open>
  On a pure ASCII type, the test \<^verbatim>\<open>strings.ToLower(cred.Type) == "userid"\<close> holds exactly
  for the capitalizations of \<^verbatim>\<open>userid\<close>.
\<close>

lemma capitalization_lowers:
  assumes "capitalizationOf ''userid'' t"
  shows "list_all isASCII t \<and> map lowerASCII t = ''userid''"
  using assms
  by (auto simp: capitalizationOf_def list_all2_Cons1 upperASCII_def lowerASCII_def isASCII_def char_of_def)

lemma lowerASCII_inverse:
  assumes "lowerASCII b = a" and "(97::int) \<le> of_char a" and "(of_char a :: int) \<le> 122"
  shows "b = a \<or> b = upperASCII a"
proof (cases "(65::int) \<le> of_char b \<and> (of_char b :: int) \<le> 90")
  case False
  with assms(1) show ?thesis by (auto simp: lowerASCII_def)
next
  case True
  with assms(1) have a: "a = char_of (of_char b + (32::int))" by (simp add: lowerASCII_def)
  from True have "(of_char a :: int) = of_char b + 32" unfolding a by simp
  then have "upperASCII a = char_of (of_char b :: int)"
    using assms(2,3) by (simp add: upperASCII_def)
  then show ?thesis by simp
qed

lemma lowers_capitalization:
  assumes "map lowerASCII t = ''userid''"
  shows "capitalizationOf ''userid'' t"
proof -
  from assms obtain b1 b2 b3 b4 b5 b6 where t: "t = [b1, b2, b3, b4, b5, b6]"
    and l: "lowerASCII b1 = CHR ''u''" "lowerASCII b2 = CHR ''s''" "lowerASCII b3 = CHR ''e''"
           "lowerASCII b4 = CHR ''r''" "lowerASCII b5 = CHR ''i''" "lowerASCII b6 = CHR ''d''"
    by (auto simp: map_eq_Cons_conv)
  show ?thesis
    unfolding t capitalizationOf_def
    using l [THEN lowerASCII_inverse] by simp
qed

text \<open>
  \<^verbatim>\<open>ParseInt\<close> on the edges of its range, and the order of its two errors: digits that
  overflow are a range error even when a byte that is no digit follows them.
\<close>

lemma ParseInt_examples:
  "ParseInt ''9223372036854775807'' = Inr 9223372036854775807"
  "ParseInt ''9223372036854775808'' = Inl (NumError ErrRange)"
  "ParseInt ''-9223372036854775808'' = Inr (- 9223372036854775808)"
  "ParseInt ''-9223372036854775809'' = Inl (NumError ErrRange)"
  "ParseInt ''99999999999999999999x'' = Inl (NumError ErrRange)"
  "ParseInt ''12x99999999999999999999'' = Inl (NumError ErrSyntax)"
  "ParseInt ''+12'' = Inr 12"
  "ParseInt ''-'' = Inl (NumError ErrSyntax)"
  "ParseInt [] = Inl (NumError ErrSyntax)"
  by code_simp+

lemma LoginCred_userid_test:
  "capitalizationOf ''userid'' t \<Longrightarrow> ToLower E t = ''userid''"
  "list_all isASCII t \<Longrightarrow> ToLower E t = ''userid'' \<Longrightarrow> capitalizationOf ''userid'' t"
proof -
  show "capitalizationOf ''userid'' t \<Longrightarrow> ToLower E t = ''userid''"
    using capitalization_lowers [of t] by (simp add: ToLower_def)
  show "list_all isASCII t \<Longrightarrow> ToLower E t = ''userid'' \<Longrightarrow> capitalizationOf ''userid'' t"
    using lowers_capitalization [of t] by (simp add: ToLower_def)
qed

subsection \<open>The older snapshots\<close>

text \<open>
  The status test of the older snapshots, \<^verbatim>\<open>StatusCode < 200 && StatusCode >= 300\<close>, is
  never true: the oldest \<^verbatim>\<open>LoginCred\<close> returns no status error at all.
\<close>

lemma LoginCred_v1_no_status_error:
  "fst (LoginCred_v1 E c credType val password log) \<noteq> Inl (statusError code e)"
  by (auto simp: LoginCred_v1_def NewRequest_def Let_def decode_unexported_def
           split: doResult.splits body.splits option.splits)

text \<open>
  The later snapshot compares the lower-cased type with \<^verbatim>\<open>"UserID"\<close>. A lower-cased ASCII
  string has no capital letter, so the special case is never taken.
\<close>

lemma of_char_lowerASCII:
  "(of_char (lowerASCII ch) :: int) =
     (if 65 \<le> (of_char ch :: int) \<and> (of_char ch :: int) \<le> 90 then of_char ch + 32 else of_char ch)"
  by (simp add: lowerASCII_def)

lemma lowerASCII_not_upper:
  "\<not> (65 \<le> (of_char (lowerASCII ch) :: int) \<and> (of_char (lowerASCII ch) :: int) \<le> 90)"
  by (simp add: of_char_lowerASCII)

lemma ToLower_ascii_not_UserID:
  assumes "list_all isASCII t"
  shows "ToLower E t \<noteq> ''UserID''"
proof
  assume "ToLower E t = ''UserID''"
  with assms have "map lowerASCII t = ''UserID''" by (simp add: ToLower_def)
  then obtain ch where "lowerASCII ch = CHR ''U''" by (cases t) auto
  then have "(of_char (lowerASCII ch) :: int) = 85" by simp
  with lowerASCII_not_upper [of ch] show False by simp
qed

lemma LoginCred_v2_ascii:
  assumes "list_all isASCII (Type cred)"
  shows "LoginCred_v2 E c cred password log =
         LoginCred_v1 E c (Type cred) (Ident cred) password log"
  using ToLower_ascii_not_UserID [OF assms] by (simp add: LoginCred_v2_def)

section \<open>The claims\<close>

subsection \<open>C1: the retry is not bounded\<close>

text \<open>
  C1 does not hold of the code. \<^verbatim>\<open>requestAPI\<close> retries whenever the request it sent had no
  token header, without checking that the answer has given it a token to send. Against
  an endpoint that answers every request with status 403 and a first error of code 0, and
  never with a token header, the retry goes out without a token again and is rejected
  and retried in turn: \<^verbatim>\<open>Login\<close> with the zero configuration never returns, where C1 asks
  for a failure after exactly two attempts.
\<close>

theorem C1_tokenless_rejection_never_returns:
  "tokenRejection (Do (always403 []) [])
   \<and> tokenOf (Do (always403 []) []) = []
   \<and> Login (always403 []) zeroConfig ''alice'' ''pw'' [] = None"
proof -
  have a: "tokenRejection (Do (always403 []) [])"
    by (simp add: always403_def plainEnv_def tokenRejection_def resp403_def tokenFailureJson_def)
  have b: "tokenOf (Do (always403 []) []) = []"
    by (simp add: always403_def plainEnv_def tokenOf_def resp403_def header_Get_def)
  have e: "case Errors (decode_loginResponse (emptyObject\<lparr>j_errors := Val [tokenFailureJson]\<rparr>) x) of
             [] \<Rightarrow> False | e # _ \<Rightarrow> Code e = 0" for x
    using decode_Errors_first [of tokenFailureJson 0 "[]" "Errors x"]
    by (auto simp: decode_loginResponse_def tokenFailureJson_def)
  have "\<forall>h. tokenlessRejection decode_loginResponse Errors (Do (always403 []) h)"
    using e by (simp add: tokenlessRejection_def always403_def plainEnv_def resp403_def header_Get_def)
  then have "requestAPI (always403 []) decode_loginResponse Errors zeroConfig
               (loginHTTPRequest zeroConfig \<lparr>Type = ''Username'', Ident = ''alice''\<rparr> ''pw'')
               \<lparr>Errors = [], User = None, TwoStepVerificationData = None\<rparr> [] = None"
    by (rule requestAPI_tokenless_loop) (simp_all add: zeroConfig_def loginHTTPRequest_no_token)
  moreover have "\<not> bad_url (always403 [])
            (Lit (if LoginEndpoint zeroConfig = [] then DefaultLoginEndpoint
                  else LoginEndpoint zeroConfig))"
    by (simp add: always403_def plainEnv_def)
  ultimately have c: "Login (always403 []) zeroConfig ''alice'' ''pw'' [] = None"
    by (simp add: Login_def LoginCred_def ToLower_Username LoginCred_send_unfold)
  from a b c show ?thesis by simp
qed

subsection \<open>C2: cookies or a Step\<close>

text \<open>
  C2, as amended. Take a login whose first answer has a 2XX status and no errors. If the
  answer contains \<^verbatim>\<open>twoStepVerificationData\<close> (and the user), \<^verbatim>\<open>LoginCred\<close> returns a Step with
  the media type and the ticket of the answer, the name of the user, and its own copy of
  the configuration with the token of the answer, together with the cookies of the answer.
  If the answer contains no \<^verbatim>\<open>twoStepVerificationData\<close>, \<^verbatim>\<open>LoginCred\<close> returns the cookies of the
  answer and no Step.
\<close>

theorem C2_login_outcomes:
  assumes kind: "ToLower E (Type cred) \<noteq> ''userid''"
    and url: "\<not> bad_url E (Lit (if LoginEndpoint c = [] then DefaultLoginEndpoint else LoginEndpoint c))"
    and answer: "Do E (withToken c (loginHTTPRequest c cred password) # log) = Resp resp"
    and body: "Body resp = Json j"
    and status: "200 \<le> StatusCode resp" "StatusCode resp < 300"
    and noerrors: "j_errors j = Absent \<or> j_errors j = Null \<or> j_errors j = Val []"
  shows "(j_twoStepVerificationData j = Val \<lparr>j_mediaType = Val m, j_ticket = Val t\<rparr>
            \<and> j_user j = Val \<lparr>j_name = Val n\<rparr> \<longrightarrow>
          LoginCred E c cred password log =
            Some (Inr (Cookies resp,
                       Some \<lparr>cfg = learnToken c resp,
                             req = \<lparr>Username = n, Ticket = t, ActionType = ''Login'',
                                    VerifyCode = [], RememberDevice = False\<rparr>,
                             MediaType = m\<rparr>),
                  withToken c (loginHTTPRequest c cred password) # log))
       \<and> (j_twoStepVerificationData j = Absent \<or> j_twoStepVerificationData j = Null \<longrightarrow>
          LoginCred E c cred password log =
            Some (Inr (Cookies resp, None),
                  withToken c (loginHTTPRequest c cred password) # log))"
proof -
  let ?a0 = "\<lparr>Errors = [], User = None, TwoStepVerificationData = None\<rparr>"
  let ?a1 = "decode_loginResponse j ?a0"
  have "Errors ?a1 = []"
    using noerrors by (auto simp: decode_loginResponse_def decode_Errors_def)
  from requestAPI_direct [where errs = Errors and dec = decode_loginResponse, OF answer body this]
  have r: "requestAPI E decode_loginResponse Errors c (loginHTTPRequest c cred password) ?a0 log =
           Some ((Some resp, None), learnToken c resp, ?a1,
                 withToken c (loginHTTPRequest c cred password) # log)"
    using status by (simp add: ifStatus_def)
  have l: "LoginCred E c cred password log = LoginCred_send E c cred password log"
    using kind by (simp add: LoginCred_def)
  show ?thesis
    unfolding l LoginCred_send_unfold [OF url] r
    by (auto simp: decode_loginResponse_def decode_TwoStep_def decode_User_def decode_string_def)
qed

theorem C2_login_outcomes_witness:
  "LoginCred (plainEnv (\<lambda>_. Resp respTwoStep)) zeroConfig \<lparr>Type = ''Username'', Ident = ''alice''\<rparr> ''pw'' [] =
            Some (Inr ([sessionCookie],
                       Some \<lparr>cfg = zeroConfig,
                             req = \<lparr>Username = ''alice'', Ticket = ''TK1'', ActionType = ''Login'',
                                    VerifyCode = [], RememberDevice = False\<rparr>,
                             MediaType = ''Email''\<rparr>),
                  [loginHTTPRequest zeroConfig \<lparr>Type = ''Username'', Ident = ''alice''\<rparr> ''pw''])
  \<and> LoginCred (plainEnv (\<lambda>_. Resp respOK)) zeroConfig \<lparr>Type = ''Username'', Ident = ''alice''\<rparr> ''pw'' [] =
            Some (Inr ([sessionCookie], None),
                  [loginHTTPRequest zeroConfig \<lparr>Type = ''Username'', Ident = ''alice''\<rparr> ''pw''])"
proof -
  let ?cred = "\<lparr>Type = ''Username'', Ident = ''alice''\<rparr>"
  have k: "ToLower E (Type ?cred) \<noteq> ''userid''" for E
    by (simp add: ToLower_Username)
  have u: "\<not> bad_url (plainEnv f) (Lit (if LoginEndpoint zeroConfig = [] then DefaultLoginEndpoint else LoginEndpoint zeroConfig))" for f
    by (simp add: plainEnv_def)
  have a: "Do (plainEnv (\<lambda>_. Resp r)) (withToken zeroConfig (loginHTTPRequest zeroConfig ?cred ''pw'') # []) = Resp r" for r
    by (simp add: plainEnv_def)
  have w: "withToken zeroConfig r = r" for r
    by (simp add: withToken_def zeroConfig_def)
  have 1: "LoginCred (plainEnv (\<lambda>_. Resp respTwoStep)) zeroConfig ?cred ''pw'' [] =
            Some (Inr ([sessionCookie],
                       Some \<lparr>cfg = zeroConfig,
                             req = \<lparr>Username = ''alice'', Ticket = ''TK1'', ActionType = ''Login'',
                                    VerifyCode = [], RememberDevice = False\<rparr>,
                             MediaType = ''Email''\<rparr>),
                  [loginHTTPRequest zeroConfig ?cred ''pw''])"
    using C2_login_outcomes [OF k u a, of respTwoStep "emptyObject
               \<lparr>j_user := Val \<lparr>j_name = Val ''alice''\<rparr>,
                j_twoStepVerificationData :=
                  Val \<lparr>j_mediaType = Val ''Email'', j_ticket = Val ''TK1''\<rparr>\<rparr>" "''Email''" "''TK1''" "''alice''"]
    by (simp add: respTwoStep_def emptyObject_def w learnToken_def header_Get_def)
  have 2: "LoginCred (plainEnv (\<lambda>_. Resp respOK)) zeroConfig ?cred ''pw'' [] =
            Some (Inr ([sessionCookie], None), [loginHTTPRequest zeroConfig ?cred ''pw''])"
    using C2_login_outcomes [OF k u a, of respOK "emptyObject\<lparr>j_user := Val \<lparr>j_name = Val ''alice''\<rparr>,
                                      j_errors := Val []\<rparr>"]
    by (simp add: respOK_def emptyObject_def w)
  from 1 2 show ?thesis by simp
qed

text \<open>
  C2 as stated fails: with \<^verbatim>\<open>twoStepVerificationData\<close> the cookies of the answer are returned
  next to the Step, and an answer without it and without errors gives an error, not
  cookies, when its status is not 2XX.
\<close>

theorem C2_counterexample:
  "LoginCred (plainEnv (\<lambda>_. Resp respTwoStep)) zeroConfig \<lparr>Type = ''Username'', Ident = ''alice''\<rparr> ''pw'' [] =
            Some (Inr ([sessionCookie],
                       Some \<lparr>cfg = zeroConfig,
                             req = \<lparr>Username = ''alice'', Ticket = ''TK1'', ActionType = ''Login'',
                                    VerifyCode = [], RememberDevice = False\<rparr>,
                             MediaType = ''Email''\<rparr>),
                  [loginHTTPRequest zeroConfig \<lparr>Type = ''Username'', Ident = ''alice''\<rparr> ''pw''])
  \<and> LoginCred (plainEnv (\<lambda>_. Resp resp500)) zeroConfig \<lparr>Type = ''Username'', Ident = ''alice''\<rparr> ''pw'' [] =
            Some (Inl (Errorf ''login'' (statusError 500 None)),
                  [loginHTTPRequest zeroConfig \<lparr>Type = ''Username'', Ident = ''alice''\<rparr> ''pw''])"
  by code_simp

subsection \<open>C3: the token the caller's configuration holds after Login\<close>

text \<open>
  C3 does not hold of the code. \<^verbatim>\<open>Login\<close>, \<^verbatim>\<open>LoginCred\<close> and \<^verbatim>\<open>Logout\<close> have value receivers:
  the token that \<^verbatim>\<open>requestAPI\<close> learns is stored in the method's copy of the configuration
  and is lost on return. Against an endpoint that rejects a request without the token
  with 403, code 0 and the token \<^verbatim>\<open>T1\<close>, a \<^verbatim>\<open>Login\<close> with the zero configuration succeeds
  on its retry; the caller's configuration still has the empty token, and a \<^verbatim>\<open>Logout\<close>
  made with it afterwards sends its first request without a token (the list shows the
  token of each request, the newest first).
\<close>

theorem C3_caller_token_not_updated:
  "Login csrfEnv zeroConfig ''alice'' ''pw'' [] =
     Some (Inr ([sessionCookie], None),
           [withToken (zeroConfig\<lparr>Token := ''T1''\<rparr>)
              (loginHTTPRequest zeroConfig \<lparr>Type = ''Username'', Ident = ''alice''\<rparr> ''pw''),
            loginHTTPRequest zeroConfig \<lparr>Type = ''Username'', Ident = ''alice''\<rparr> ''pw''])
   \<and> Token zeroConfig = []
   \<and> map_option (sentTokens \<circ> snd)
        (Logout csrfEnv zeroConfig [sessionCookie]
           [withToken (zeroConfig\<lparr>Token := ''T1''\<rparr>)
              (loginHTTPRequest zeroConfig \<lparr>Type = ''Username'', Ident = ''alice''\<rparr> ''pw''),
            loginHTTPRequest zeroConfig \<lparr>Type = ''Username'', Ident = ''alice''\<rparr> ''pw'']) =
       Some [''T1'', [], ''T1'', []]"
  by code_simp

subsection \<open>C4: resolving a UserID credential\<close>



subsection \<open>C5: a resend that succeeds on the retry leaves the step as it was\<close>

text \<open>
  C5 does not hold of the code. The step holds no token, so the first request of \<^verbatim>\<open>Resend\<close>
  is rejected with status 403, a first error of code 0 and the token \<^verbatim>\<open>T1\<close>, and \<^verbatim>\<open>requestAPI\<close>
  retries with that token. The retry is answered with status 200, the channel \<^verbatim>\<open>SMS\<close>, the
  ticket \<^verbatim>\<open>T2\<close> and no \<^verbatim>\<open>errors\<close> key. The answer is decoded into the value that still holds
  the errors of the rejection, so \<^verbatim>\<open>Resend\<close> returns those errors, and the step keeps the
  channel \<^verbatim>\<open>Email\<close> and the ticket \<^verbatim>\<open>TK1\<close>, where C5 asks that a successful response
  overwrites both.
\<close>

theorem C5_resend_retry_keeps_errors:
  "Do csrfResendEnv [resendHTTPRequest pendingStep] = Resp (resp403 ''T1'')
   \<and> tokenRejection (Resp (resp403 ''T1''))
   \<and> Do csrfResendEnv
        [withToken (zeroConfig\<lparr>Token := ''T1''\<rparr>) (resendHTTPRequest pendingStep),
         resendHTTPRequest pendingStep] = Resp respResent
   \<and> StatusCode respResent = 200
   \<and> Body respResent = Json (emptyObject\<lparr>j_top_mediaType := Val ''SMS'',
                                           j_top_ticket := Val ''T2''\<rparr>)
   \<and> j_errors (emptyObject\<lparr>j_top_mediaType := Val ''SMS'', j_top_ticket := Val ''T2''\<rparr>)
       = Absent
   \<and> Resend csrfResendEnv pendingStep [] =
       Some (Some (errorsResponseError [tokenFailure]),
             pendingStep\<lparr>cfg := zeroConfig\<lparr>Token := ''T1''\<rparr>\<rparr>,
             [withToken (zeroConfig\<lparr>Token := ''T1''\<rparr>) (resendHTTPRequest pendingStep),
              resendHTTPRequest pendingStep])
   \<and> MediaType (pendingStep\<lparr>cfg := zeroConfig\<lparr>Token := ''T1''\<rparr>\<rparr>) = ''Email''
   \<and> Ticket (req (pendingStep\<lparr>cfg := zeroConfig\<lparr>Token := ''T1''\<rparr>\<rparr>)) = ''TK1''"
proof -
  have 1: "Do csrfResendEnv [resendHTTPRequest pendingStep] = Resp (resp403 ''T1'')"
    by code_simp
  have 2: "tokenRejection (Resp (resp403 ''T1''))"
    by code_simp
  have 3: "Do csrfResendEnv
        [withToken (zeroConfig\<lparr>Token := ''T1''\<rparr>) (resendHTTPRequest pendingStep),
         resendHTTPRequest pendingStep] = Resp respResent"
    by code_simp
  have 4: "StatusCode respResent = 200"
    "Body respResent = Json (emptyObject\<lparr>j_top_mediaType := Val ''SMS'',
                                           j_top_ticket := Val ''T2''\<rparr>)"
    "j_errors (emptyObject\<lparr>j_top_mediaType := Val ''SMS'', j_top_ticket := Val ''T2''\<rparr>)
       = Absent"
    by (simp_all add: respResent_def emptyObject_def)
  have 5: "Resend csrfResendEnv pendingStep [] =
       Some (Some (errorsResponseError [tokenFailure]),
             pendingStep\<lparr>cfg := zeroConfig\<lparr>Token := ''T1''\<rparr>\<rparr>,
             [withToken (zeroConfig\<lparr>Token := ''T1''\<rparr>) (resendHTTPRequest pendingStep),
              resendHTTPRequest pendingStep])"
    by code_simp
  have 6: "MediaType (pendingStep\<lparr>cfg := zeroConfig\<lparr>Token := ''T1''\<rparr>\<rparr>) = ''Email''"
    "Ticket (req (pendingStep\<lparr>cfg := zeroConfig\<lparr>Token := ''T1''\<rparr>\<rparr>)) = ''TK1''"
    by (simp_all add: pendingStep_def)
  from 1 2 3 4 5 6 show ?thesis by simp
qed

subsection \<open>C6: status errors\<close>

text \<open>
  C6 holds of the current client (the lemmas on \<open>statusReported\<close> above) and fails in the
  older snapshots. There the test is \<^verbatim>\<open>StatusCode < 200 && StatusCode >= 300\<close>: an answer
  with status 500 and the body \<^verbatim>\<open>{}\<close> makes the oldest \<^verbatim>\<open>LoginCred\<close> return the cookies of
  the answer and no error.
\<close>

theorem C6_legacy_status_ignored:
  "StatusCode resp500 = 500
   \<and> Body resp500 = Json emptyObject
   \<and> LoginCred_v1 (plainEnv (\<lambda>_. Resp resp500)) \<lparr>Host = []\<rparr> ''Username'' ''alice'' ''pw'' [] =
       (Inr ([sessionCookie], None),
        [\<lparr>Method = ''POST'', URL = Lit ''https://auth.roblox.com/v2/login'',
          Header = [(''Accept'', ''application/json''), (''Content-Type'', ''application/json'')],
          ReqCookies = [], ReqBody = EmptyObject\<rparr>])"
  by code_simp

subsection \<open>C7: the identity lookup and the token\<close>

text \<open>
  C7, as amended. The lookup goes through \<^verbatim>\<open>requestAPI\<close> like every other call, so it reads
  the stored token: the first request of a lookup carries the stored token in its token
  header (and no header when the stored token is empty). It does not write it: the
  lookup works on its own copy of the configuration, and the login request that
  \<^verbatim>\<open>LoginCred\<close> sends after a lookup carries the token stored before the lookup, whatever
  token the answers to the lookup carried.
\<close>

theorem C7_lookup_token:
  assumes url: "\<not> bad_url E (Sprintf (if UserIDEndpoint c = [] then DefaultUserIDEndpoint
                                       else UserIDEndpoint c) userID)"
    and ret: "getUsername E c userID log = Some (res, log')"
  shows "(\<exists>rs q. log' = rs @ q # log \<and> Method q = ''GET''
            \<and> header_Get tokenHeader (Header q) = Token c)
       \<and> (\<forall>cred password name res2 log2.
            ToLower E (Type cred) = ''userid'' \<and> ParseInt (Ident cred) = Inr userID
            \<and> res = Inr name
            \<and> \<not> bad_url E (Lit (if LoginEndpoint c = [] then DefaultLoginEndpoint
                                  else LoginEndpoint c))
            \<and> LoginCred E c cred password log = Some (res2, log2)
            \<longrightarrow> (\<exists>rs q. log2 = rs @ q # log' \<and> Method q = ''POST''
                    \<and> header_Get tokenHeader (Header q) = Token c))"
proof (intro conjI allI impI)
  let ?q = "\<lparr>Method = ''GET'',
              URL = Sprintf (if UserIDEndpoint c = [] then DefaultUserIDEndpoint else UserIDEndpoint c) userID,
              Header = [], ReqCookies = [], ReqBody = NoBody\<rparr>"
  from ret obtain out c' a' where
    r: "requestAPI E decode_usernameResponse Errors c ?q \<lparr>Errors = [], RespUsername = []\<rparr> log
        = Some (out, c', a', log')"
    unfolding getUsername_unfold [OF url]
    by (auto split: option.splits prod.splits)
  from requestAPI_log [OF r] obtain rs where "log' = rs @ withToken c ?q # log" ..
  moreover have "Method (withToken c ?q) = ''GET''"
    by (simp add: withToken_def)
  moreover have "header_Get tokenHeader (Header (withToken c ?q)) = Token c"
    by (rule withToken_token) (simp add: header_Get_Nil)
  ultimately show "\<exists>rs q. log' = rs @ q # log \<and> Method q = ''GET''
            \<and> header_Get tokenHeader (Header q) = Token c"
    by blast
next
  fix cred password name res2 log2
  assume a: "ToLower E (Type cred) = ''userid'' \<and> ParseInt (Ident cred) = Inr userID
            \<and> res = Inr name
            \<and> \<not> bad_url E (Lit (if LoginEndpoint c = [] then DefaultLoginEndpoint
                                  else LoginEndpoint c))
            \<and> LoginCred E c cred password log = Some (res2, log2)"
  then have k: "ToLower E (Type cred) = ''userid''" and p: "ParseInt (Ident cred) = Inr userID"
    and n: "res = Inr name" and lc: "LoginCred E c cred password log = Some (res2, log2)"
    by blast+
  from ret n have "getUsername E c userID log = Some (Inr name, log')" by simp
  with lc k p
  have "LoginCred_send E c \<lparr>Type = ''Username'', Ident = name\<rparr> password log' = Some (res2, log2)"
    by (simp add: LoginCred_def)
  from LoginCred_send_log [OF _ this] a
  obtain rs where "log2 = rs @ withToken c (loginHTTPRequest c \<lparr>Type = ''Username'', Ident = name\<rparr> password) # log'"
    by blast
  moreover have "Method (withToken c (loginHTTPRequest c \<lparr>Type = ''Username'', Ident = name\<rparr> password)) = ''POST''"
    by (simp add: withToken_def loginHTTPRequest_def)
  moreover have "header_Get tokenHeader (Header (withToken c (loginHTTPRequest c \<lparr>Type = ''Username'', Ident = name\<rparr> password))) = Token c"
    by (rule withToken_token) (rule loginHTTPRequest_no_token)
  ultimately show "\<exists>rs q. log2 = rs @ q # log' \<and> Method q = ''POST''
                    \<and> header_Get tokenHeader (Header q) = Token c"
    by blast
qed

theorem C7_lookup_token_witness:
  "getUsername lookupEnv (zeroConfig\<lparr>Token := ''T0''\<rparr>) 123 [] =
     Some (Inr ''alice'',
           [\<lparr>Method = ''GET'', URL = Sprintf DefaultUserIDEndpoint 123,
             Header = [(tokenHeader, ''T0'')], ReqCookies = [], ReqBody = NoBody\<rparr>])
   \<and> header_Get tokenHeader (RespHeader respLookup) = ''T9''
   \<and> map_option (sentTokens \<circ> snd)
        (LoginCred lookupEnv (zeroConfig\<lparr>Token := ''T0''\<rparr>)
           \<lparr>Type = ''UserID'', Ident = ''123''\<rparr> ''pw'' []) = Some [''T0'', ''T0'']
   \<and> (\<exists>rs q. [\<lparr>Method = ''GET'', URL = Sprintf DefaultUserIDEndpoint 123,
                 Header = [(tokenHeader, ''T0'')], ReqCookies = [], ReqBody = NoBody\<rparr>]
               = rs @ q # [] \<and> Method q = ''GET''
               \<and> header_Get tokenHeader (Header q) = Token (zeroConfig\<lparr>Token := ''T0''\<rparr>))"
proof -
  let ?c = "zeroConfig\<lparr>Token := ''T0''\<rparr>"
  let ?q = "\<lparr>Method = ''GET'', URL = Sprintf DefaultUserIDEndpoint 123,
             Header = [(tokenHeader, ''T0'')], ReqCookies = [], ReqBody = NoBody\<rparr>"
  have u: "\<not> bad_url lookupEnv (Sprintf (if UserIDEndpoint ?c = [] then DefaultUserIDEndpoint
                                       else UserIDEndpoint ?c) 123)"
    by (simp add: lookupEnv_def plainEnv_def)
  have g: "getUsername lookupEnv ?c 123 [] = Some (Inr ''alice'', [?q])"
    by code_simp
  have t: "header_Get tokenHeader (RespHeader respLookup) = ''T9''"
    by code_simp
  have l: "map_option (sentTokens \<circ> snd)
        (LoginCred lookupEnv ?c \<lparr>Type = ''UserID'', Ident = ''123''\<rparr> ''pw'' []) = Some [''T0'', ''T0'']"
    by code_simp
  from C7_lookup_token [OF u g] g t l show ?thesis by simp
qed

text \<open>
  C7 as stated fails: with the token \<^verbatim>\<open>T0\<close> stored, the lookup request carries the header
  \<^verbatim>\<open>X-CSRF-TOKEN: T0\<close>.
\<close>

theorem C7_counterexample:
  "getUsername lookupEnv (zeroConfig\<lparr>Token := ''T0''\<rparr>) 123 [] =
     Some (Inr ''alice'',
           [\<lparr>Method = ''GET'', URL = Sprintf DefaultUserIDEndpoint 123,
             Header = [(tokenHeader, ''T0'')], ReqCookies = [], ReqBody = NoBody\<rparr>])
   \<and> header_Get tokenHeader [(tokenHeader, ''T0'')] = ''T0''"
  by code_simp

subsection \<open>C9: what Verify leaves unchanged\<close>

text \<open>
  C9, as amended. Whether \<^verbatim>\<open>Verify\<close> succeeds or fails, the step's pending request
  (user name, ticket, action type, and the code and remember fields, which are set on a
  copy) and its \<^verbatim>\<open>MediaType\<close> are unchanged, and so is every field of the step's
  configuration except the token.
\<close>

theorem C9_verify_frame:
  assumes "Verify E s code remember log = Some (res, s', log')"
  shows "req s' = req s \<and> MediaType s' = MediaType s
         \<and> cfg s' = (cfg s)\<lparr>Token := Token (cfg s')\<rparr>"
proof (cases "bad_url E (Lit (if VerifyEndpoint (cfg s) = [] then DefaultVerifyEndpoint else VerifyEndpoint (cfg s)))")
  case True
  with assms show ?thesis
    by (auto simp: Verify_def NewRequest_def Let_def)
next
  case False
  let ?R = "requestAPI E decode_errorsResponse Errors (cfg s)
            \<lparr>Method = ''POST'',
             URL = Lit (if VerifyEndpoint (cfg s) = [] then DefaultVerifyEndpoint else VerifyEndpoint (cfg s)),
             Header = header_Set ''Accept'' ''application/json''
                        (header_Set ''Content-Type'' ''application/json'' []),
             ReqCookies = [],
             ReqBody = VerifyBody ((req s)\<lparr>VerifyCode := code, RememberDevice := remember\<rparr>)\<rparr>
            \<lparr>Errors = []\<rparr> log"
  from assms obtain out c' a' where r: "?R = Some (out, c', a', log')" and s': "s' = s\<lparr>cfg := c'\<rparr>"
    unfolding Verify_unfold [OF False]
    by (auto split: option.splits prod.splits)
  from requestAPI_config [OF r] have "c' = (cfg s)\<lparr>Token := Token c'\<rparr>" .
  with s' show ?thesis by simp
qed

theorem C9_verify_frame_witness:
  "Verify (plainEnv (\<lambda>_. Resp respRefused)) pendingStep ''123456'' True [] =
     Some (Inl (Errorf ''verify'' (statusError 400 (Some (errorsResponseError
                  [\<lparr>Code = 10, Message = ''Invalid ticket'', Field = []\<rparr>])))),
           pendingStep,
           [\<lparr>Method = ''POST'', URL = Lit DefaultVerifyEndpoint,
             Header = [(''Accept'', ''application/json''), (''Content-Type'', ''application/json'')],
             ReqCookies = [],
             ReqBody = VerifyBody \<lparr>Username = ''alice'', Ticket = ''TK1'', ActionType = ''Login'',
                                   VerifyCode = ''123456'', RememberDevice = True\<rparr>\<rparr>])
   \<and> req pendingStep = req pendingStep \<and> MediaType pendingStep = MediaType pendingStep
   \<and> cfg pendingStep = (cfg pendingStep)\<lparr>Token := Token (cfg pendingStep)\<rparr>"
proof -
  have 1: "Verify (plainEnv (\<lambda>_. Resp respRefused)) pendingStep ''123456'' True [] =
     Some (Inl (Errorf ''verify'' (statusError 400 (Some (errorsResponseError
                  [\<lparr>Code = 10, Message = ''Invalid ticket'', Field = []\<rparr>])))),
           pendingStep,
           [\<lparr>Method = ''POST'', URL = Lit DefaultVerifyEndpoint,
             Header = [(''Accept'', ''application/json''), (''Content-Type'', ''application/json'')],
             ReqCookies = [],
             ReqBody = VerifyBody \<lparr>Username = ''alice'', Ticket = ''TK1'', ActionType = ''Login'',
                                   VerifyCode = ''123456'', RememberDevice = True\<rparr>\<rparr>])"
    by code_simp
  from C9_verify_frame [OF 1] 1 show ?thesis by simp
qed

text \<open>
  C9 as stated fails: the step's configuration is part of its state, and \<^verbatim>\<open>Verify\<close> stores
  in it the token that the answer carries.
\<close>

theorem C9_counterexample:
  "Verify (plainEnv (\<lambda>_. Resp respVerified)) pendingStep ''123456'' True [] =
     Some (Inr [sessionCookie],
           pendingStep\<lparr>cfg := zeroConfig\<lparr>Token := ''T2''\<rparr>\<rparr>,
           [\<lparr>Method = ''POST'', URL = Lit DefaultVerifyEndpoint,
             Header = [(''Accept'', ''application/json''), (''Content-Type'', ''application/json'')],
             ReqCookies = [],
             ReqBody = VerifyBody \<lparr>Username = ''alice'', Ticket = ''TK1'', ActionType = ''Login'',
                                   VerifyCode = ''123456'', RememberDevice = True\<rparr>\<rparr>])
   \<and> pendingStep\<lparr>cfg := zeroConfig\<lparr>Token := ''T2''\<rparr>\<rparr> \<noteq> pendingStep"
  by code_simp

subsection \<open>C10: the UserID test is case-insensitive\<close>

text \<open>
  C10 holds of the current \<^verbatim>\<open>LoginCred\<close> (\<open>LoginCred_userid_test\<close> above) and fails in the
  later of the older snapshots, which compares the lower-cased type with \<^verbatim>\<open>"UserID"\<close>:
  the credential \<^verbatim>\<open>{UserID, 123}\<close> is neither parsed nor looked up there. The only request
  is the login itself; the lookup, a GET, is never sent.
\<close>

theorem C10_legacy_userid_not_resolved:
  "ToLower lookupEnv ''UserID'' = ''userid''
   \<and> LoginCred_v2 lookupEnv \<lparr>Host = []\<rparr> \<lparr>Type = ''UserID'', Ident = ''123''\<rparr> ''pw'' [] =
       (Inr ([sessionCookie], None),
        [\<lparr>Method = ''POST'', URL = Lit ''https://auth.roblox.com/v2/login'',
          Header = [(''Accept'', ''application/json''), (''Content-Type'', ''application/json'')],
          ReqCookies = [], ReqBody = EmptyObject\<rparr>])
   \<and> LoginCred_v2 lookupEnv \<lparr>Host = []\<rparr> \<lparr>Type = ''userid'', Ident = ''12a''\<rparr> ''pw'' [] =
       (Inr ([sessionCookie], None),
        [\<lparr>Method = ''POST'', URL = Lit ''https://auth.roblox.com/v2/login'',
          Header = [(''Accept'', ''application/json''), (''Content-Type'', ''application/json'')],
          ReqCookies = [], ReqBody = EmptyObject\<rparr>])"
  by code_simp

end
